theory Spec2Isabelle
  imports Main "HOL-Library.Char_ord" "HOL-Library.Sublist"
begin

section \<open>AI text tools: the HTTP handlers and the outbound LLM client of main.go\<close>

text \<open>
  Go strings are byte sequences; they are modelled as \<^typ>\<open>string\<close> (a list of 8-bit
  characters). The handlers of main.go lean on three library services: \<^verbatim>\<open>encoding/json\<close>
  (decoding request bodies, the upstream response and the model's reply), \<^verbatim>\<open>net/http\<close>
  (the inbound request, the response writer, the outbound client) and \<^verbatim>\<open>log\<close>. The
  first is modelled by an executable decoder below; the other two appear as explicit
  values: a request record, a response record, the outbound transport as a function, and
  the log and the outbound calls as lists returned next to the response.
\<close>

subsection \<open>encoding/json: values, scanning and unquoting\<close>

datatype json =
    JNull
  | JBool bool
  | JNumber string
  | JString string
  | JArray "json list"
  | JObject "(string \<times> json) list"

text \<open>
  Every syntax failure of the scanner, together with \<^verbatim>\<open>io.EOF\<close> and
  \<^verbatim>\<open>io.ErrUnexpectedEOF\<close> of a stream that ends before a value is complete, is
  \<open>SyntaxError\<close>; a well-formed value that does not fit the Go target is
  \<open>UnmarshalTypeError\<close>.
\<close>

datatype json_error = SyntaxError | UnmarshalTypeError

definition isSpace :: "char \<Rightarrow> bool" where
  "isSpace c = (c = CHR '' '' \<or> c = CHR 0x09 \<or> c = CHR 0x0D \<or> c = CHR 0x0A)"

definition isDigit :: "char \<Rightarrow> bool" where
  "isDigit c = (CHR ''0'' \<le> c \<and> c \<le> CHR ''9'')"

definition hexval :: "char \<Rightarrow> nat option" where
  "hexval c =
     (if CHR ''0'' \<le> c \<and> c \<le> CHR ''9'' then Some (of_char c - of_char (CHR ''0''))
      else if CHR ''a'' \<le> c \<and> c \<le> CHR ''f'' then Some (of_char c - of_char (CHR ''a'') + 10)
      else if CHR ''A'' \<le> c \<and> c \<le> CHR ''F'' then Some (of_char c - of_char (CHR ''A'') + 10)
      else None)"

text \<open>
  The escapes the scanner accepts after a backslash, with the byte each one stands for.
\<close>

definition simple_escape :: "char \<Rightarrow> char option" where
  "simple_escape e =
     (if e = CHR 0x22 \<or> e = CHR 0x5C \<or> e = CHR ''/'' then Some e
      else if e = CHR ''b'' then Some (CHR 0x08)
      else if e = CHR ''f'' then Some (CHR 0x0C)
      else if e = CHR ''n'' then Some (CHR 0x0A)
      else if e = CHR ''r'' then Some (CHR 0x0D)
      else if e = CHR ''t'' then Some (CHR 0x09)
      else None)"

text \<open>
  \<open>scan_string\<close> starts after the opening quote and returns the raw bytes up to the
  closing quote and the input after it (the scanner states \<^verbatim>\<open>stateInString\<close>,
  \<^verbatim>\<open>stateInStringEsc\<close>, \<^verbatim>\<open>stateInStringEscU\<close>...).
\<close>

fun scan_string :: "string \<Rightarrow> (string \<times> string) option" where
  "scan_string [] = None"
| "scan_string (c # cs) =
     (if c = CHR 0x22 then Some ([], cs)
      else if c = CHR 0x5C then
        (case cs of
           [] \<Rightarrow> None
         | e # r \<Rightarrow>
             if e = CHR ''u'' then
               (case r of
                  h1 # h2 # h3 # h4 # r' \<Rightarrow>
                    if hexval h1 \<noteq> None \<and> hexval h2 \<noteq> None \<and> hexval h3 \<noteq> None \<and> hexval h4 \<noteq> None
                    then map_option (\<lambda>(raw, rest). (c # e # h1 # h2 # h3 # h4 # raw, rest)) (scan_string r')
                    else None
                | _ \<Rightarrow> None)
             else if simple_escape e \<noteq> None
             then map_option (\<lambda>(raw, rest). (c # e # raw, rest)) (scan_string r)
             else None)
      else if (of_char c :: nat) < 0x20 then None
      else map_option (\<lambda>(raw, rest). (c # raw, rest)) (scan_string cs))"

text \<open>\<^verbatim>\<open>getu4\<close>: the value of a leading \<^verbatim>\<open>\uXXXX\<close>, or nothing (Go returns -1).\<close>

definition getu4 :: "string \<Rightarrow> nat option" where
  "getu4 s =
     (case s of
        b # u # h1 # h2 # h3 # h4 # _ \<Rightarrow>
          if b = CHR 0x5C \<and> u = CHR ''u'' then
            (case (hexval h1, hexval h2, hexval h3, hexval h4) of
               (Some a, Some b, Some c, Some d) \<Rightarrow> Some (((a * 16 + b) * 16 + c) * 16 + d)
             | _ \<Rightarrow> None)
          else None
      | _ \<Rightarrow> None)"

definition ReplacementChar :: nat where
  "ReplacementChar = 0xFFFD"

definition IsSurrogate :: "nat \<Rightarrow> bool" where
  "IsSurrogate r = (0xD800 \<le> r \<and> r < 0xE000)"

text \<open>\<^verbatim>\<open>utf16.DecodeRune\<close>, the second rune absent when \<^verbatim>\<open>getu4\<close> gave -1.\<close>

definition utf16_DecodeRune :: "nat \<Rightarrow> nat option \<Rightarrow> nat" where
  "utf16_DecodeRune r1 r2 =
     (case r2 of
        None \<Rightarrow> ReplacementChar
      | Some r2' \<Rightarrow>
          if 0xD800 \<le> r1 \<and> r1 < 0xDC00 \<and> 0xDC00 \<le> r2' \<and> r2' < 0xE000
          then (r1 - 0xD800) * 1024 + (r2' - 0xDC00) + 0x10000
          else ReplacementChar)"

text \<open>\<^verbatim>\<open>utf8.EncodeRune\<close>.\<close>

definition EncodeRune :: "nat \<Rightarrow> string" where
  "EncodeRune r =
     (if r \<le> 0x7F then [char_of r]
      else if r \<le> 0x7FF then [char_of (0xC0 + r div 64), char_of (0x80 + r mod 64)]
      else if r > 0x10FFFF \<or> IsSurrogate r then [CHR 0xEF, CHR 0xBF, CHR 0xBD]
      else if r \<le> 0xFFFF then
        [char_of (0xE0 + r div 4096), char_of (0x80 + (r div 64) mod 64), char_of (0x80 + r mod 64)]
      else
        [char_of (0xF0 + r div 262144), char_of (0x80 + (r div 4096) mod 64),
         char_of (0x80 + (r div 64) mod 64), char_of (0x80 + r mod 64)])"

text \<open>
  \<^verbatim>\<open>utf8.DecodeRune\<close>, reduced to the width of the encoding at the head of the input:
  0 stands for \<^verbatim>\<open>(RuneError, 1)\<close>, an invalid or truncated encoding. A valid encoding
  is re-encoded to the same bytes, so \<open>unquote\<close> copies it.
\<close>

definition between :: "nat \<Rightarrow> nat \<Rightarrow> char \<Rightarrow> bool" where
  "between lo hi c = (lo \<le> of_char c \<and> of_char c \<le> hi)"

definition DecodeRune_width :: "string \<Rightarrow> nat" where
  "DecodeRune_width s =
     (case s of
        [] \<Rightarrow> 0
      | c # cs \<Rightarrow>
          let b = (of_char c :: nat) in
          if b < 0x80 then 1
          else if 0xC2 \<le> b \<and> b \<le> 0xDF then
            (case cs of c1 # _ \<Rightarrow> if between 0x80 0xBF c1 then 2 else 0 | _ \<Rightarrow> 0)
          else if 0xE0 \<le> b \<and> b \<le> 0xEF then
            (case cs of
               c1 # c2 # _ \<Rightarrow>
                 if between (if b = 0xE0 then 0xA0 else 0x80) (if b = 0xED then 0x9F else 0xBF) c1
                    \<and> between 0x80 0xBF c2
                 then 3 else 0
             | _ \<Rightarrow> 0)
          else if 0xF0 \<le> b \<and> b \<le> 0xF4 then
            (case cs of
               c1 # c2 # c3 # _ \<Rightarrow>
                 if between (if b = 0xF0 then 0x90 else 0x80) (if b = 0xF4 then 0x8F else 0xBF) c1
                    \<and> between 0x80 0xBF c2 \<and> between 0x80 0xBF c3
                 then 4 else 0
             | _ \<Rightarrow> 0)
          else 0)"

text \<open>
  \<^verbatim>\<open>unquoteBytes\<close> on the raw bytes between the quotes: escapes are replaced, a
  \<^verbatim>\<open>\u\<close> surrogate pair becomes one rune, a lone surrogate and every byte that is not
  part of well-formed UTF-8 become U+FFFD.
\<close>

function unquote :: "string \<Rightarrow> string option" where
  "unquote [] = Some []"
| "unquote (c # cs) =
     (if c = CHR 0x5C then
        (case cs of
           [] \<Rightarrow> None
         | e # r \<Rightarrow>
             if e = CHR ''u'' then
               (case getu4 (c # cs) of
                  None \<Rightarrow> None
                | Some rr \<Rightarrow>
                    if IsSurrogate rr then
                      (let dec = utf16_DecodeRune rr (getu4 (drop 5 cs)) in
                       if dec \<noteq> ReplacementChar
                       then map_option ((@) (EncodeRune dec)) (unquote (drop 11 cs))
                       else map_option ((@) (EncodeRune ReplacementChar)) (unquote (drop 5 cs)))
                    else map_option ((@) (EncodeRune rr)) (unquote (drop 5 cs)))
             else
               (case simple_escape e of
                  None \<Rightarrow> None
                | Some b \<Rightarrow> map_option ((#) b) (unquote r)))
      else if c = CHR 0x22 \<or> (of_char c :: nat) < 0x20 then None
      else if (of_char c :: nat) < 0x80 then map_option ((#) c) (unquote cs)
      else
        (let n = DecodeRune_width (c # cs) in
         if n = 0 then map_option ((@) (EncodeRune ReplacementChar)) (unquote cs)
         else map_option ((@) (take n (c # cs))) (unquote (drop (n - 1) cs))))"
  by pat_completeness auto
termination
  by (relation "measure length") auto

text \<open>
  A number literal, as the scanner's states \<^verbatim>\<open>stateNeg\<close>, \<^verbatim>\<open>state0\<close>,
  \<^verbatim>\<open>state1\<close>, \<^verbatim>\<open>stateDot\<close>, \<^verbatim>\<open>stateDot0\<close>, \<^verbatim>\<open>stateE\<close>,
  \<^verbatim>\<open>stateESign\<close>, \<^verbatim>\<open>stateE0\<close> accept it: the longest literal at the head of the
  input and the input after it.
\<close>

definition scan_digits1 :: "string \<Rightarrow> (string \<times> string) option" where
  "scan_digits1 s =
     (case s of
        [] \<Rightarrow> None
      | c # _ \<Rightarrow> if isDigit c then Some (takeWhile isDigit s, dropWhile isDigit s) else None)"

definition scan_int :: "string \<Rightarrow> (string \<times> string) option" where
  "scan_int s =
     (case s of
        [] \<Rightarrow> None
      | c # cs \<Rightarrow>
          if c = CHR ''0'' then Some ([c], cs)
          else if CHR ''1'' \<le> c \<and> c \<le> CHR ''9''
          then Some (c # takeWhile isDigit cs, dropWhile isDigit cs)
          else None)"

definition scan_frac :: "string \<Rightarrow> (string \<times> string) option" where
  "scan_frac s =
     (case s of
        c # cs \<Rightarrow>
          if c = CHR ''.'' then map_option (\<lambda>(ds, rest). (c # ds, rest)) (scan_digits1 cs)
          else Some ([], s)
      | [] \<Rightarrow> Some ([], s))"

definition scan_exp :: "string \<Rightarrow> (string \<times> string) option" where
  "scan_exp s =
     (case s of
        c # cs \<Rightarrow>
          if c = CHR ''e'' \<or> c = CHR ''E'' then
            (case cs of
               sg # cs' \<Rightarrow>
                 if sg = CHR ''+'' \<or> sg = CHR ''-''
                 then map_option (\<lambda>(ds, rest). (c # sg # ds, rest)) (scan_digits1 cs')
                 else map_option (\<lambda>(ds, rest). (c # ds, rest)) (scan_digits1 cs)
             | [] \<Rightarrow> None)
          else Some ([], s)
      | [] \<Rightarrow> Some ([], s))"

definition scan_number :: "string \<Rightarrow> (string \<times> string) option" where
  "scan_number s =
     (let (sign, s0) = (case s of c # cs \<Rightarrow> if c = CHR ''-'' then ([c], cs) else ([], s) | [] \<Rightarrow> ([], s))
      in case scan_int s0 of
           None \<Rightarrow> None
         | Some (i, s1) \<Rightarrow>
             (case scan_frac s1 of
                None \<Rightarrow> None
              | Some (f, s2) \<Rightarrow>
                  (case scan_exp s2 of
                     None \<Rightarrow> None
                   | Some (e, s3) \<Rightarrow> Some (sign @ i @ f @ e, s3))))"

subsection \<open>encoding/json: tokens and the value parser\<close>

datatype token =
    TLBrace | TRBrace | TLBrack | TRBrack | TColon | TComma
  | TString string | TNumber string | TTrue | TFalse | TNull
  | TBad

text \<open>
  The input cut into tokens. Scanning stops with \<open>TBad\<close> at the first byte that
  starts no token; what a reader never reaches is never looked at.
\<close>

function lex :: "string \<Rightarrow> token list" where
  "lex [] = []"
| "lex (c # cs) =
     (if isSpace c then lex cs
      else if c = CHR ''{'' then TLBrace # lex cs
      else if c = CHR ''}'' then TRBrace # lex cs
      else if c = CHR ''['' then TLBrack # lex cs
      else if c = CHR '']'' then TRBrack # lex cs
      else if c = CHR '':'' then TColon # lex cs
      else if c = CHR '','' then TComma # lex cs
      else if c = CHR 0x22 then
        (case scan_string cs of
           None \<Rightarrow> [TBad]
         | Some (raw, rest) \<Rightarrow>
             (case unquote raw of
                None \<Rightarrow> [TBad]
              | Some s \<Rightarrow> TString s # lex rest))
      else if c = CHR ''-'' \<or> isDigit c then
        (case scan_number (c # cs) of
           None \<Rightarrow> [TBad]
         | Some (lit, rest) \<Rightarrow> TNumber lit # lex rest)
      else if take 4 (c # cs) = ''true'' then TTrue # lex (drop 3 cs)
      else if take 5 (c # cs) = ''false'' then TFalse # lex (drop 4 cs)
      else if take 4 (c # cs) = ''null'' then TNull # lex (drop 3 cs)
      else [TBad])"
  by pat_completeness auto
termination
proof (relation "measure length")
  have str: "scan_string s = Some (raw, rest) \<Longrightarrow> length rest < Suc (length s)"
    for s raw rest
    by (induction s arbitrary: raw rest rule: scan_string.induct)
       (fastforce split: if_splits list.splits)+
  have dw: "length (dropWhile isDigit xs) \<le> Suc (length xs)" for xs
    using length_dropWhile_le [of isDigit xs] by simp
  have dig: "scan_digits1 s = Some (ds, rest) \<Longrightarrow> length rest \<le> length s" for s ds rest
    by (auto simp: scan_digits1_def dw split: list.splits if_splits)
  have int: "scan_int s = Some (i, rest) \<Longrightarrow> length rest < length s" for s i rest
    by (auto simp: scan_int_def less_Suc_eq_le length_dropWhile_le split: list.splits if_splits)
  have frac: "scan_frac s = Some (f, rest) \<Longrightarrow> length rest \<le> length s" for s f rest
    by (auto simp: scan_frac_def split: list.splits if_splits dest!: dig)
  have exp: "scan_exp s = Some (e, rest) \<Longrightarrow> length rest \<le> length s" for s e rest
    by (auto simp: scan_exp_def split: list.splits if_splits dest!: dig)
  have num: "scan_number s = Some (lit, rest) \<Longrightarrow> length rest < length s" for s lit rest
  proof -
    assume a: "scan_number s = Some (lit, rest)"
    obtain sg s0 where s0: "(case s of c # cs \<Rightarrow> if c = CHR ''-'' then ([c], cs) else ([], s)
                                   | [] \<Rightarrow> ([], s)) = (sg, s0)"
      by (cases "(case s of c # cs \<Rightarrow> if c = CHR ''-'' then ([c], cs) else ([], s) | [] \<Rightarrow> ([], s))")
    then have l0: "length s0 \<le> length s"
      by (auto split: list.splits if_splits)
    from a s0 obtain i s1 f s2 e where
      "scan_int s0 = Some (i, s1)" "scan_frac s1 = Some (f, s2)" "scan_exp s2 = Some (e, rest)"
      by (auto simp: scan_number_def split: option.splits prod.splits)
    then have "length s1 < length s0" "length s2 \<le> length s1" "length rest \<le> length s2"
      using int frac exp by blast+
    with l0 show ?thesis by linarith
  qed
  show "wf (measure length)" by simp
  show "\<And>c cs x raw rest s. scan_string cs = Some x \<Longrightarrow> (raw, rest) = x \<Longrightarrow>
          (rest, c # cs) \<in> measure length"
    using str by fastforce
  show "\<And>c cs x lit rest. scan_number (c # cs) = Some x \<Longrightarrow> (lit, rest) = x \<Longrightarrow>
          (rest, c # cs) \<in> measure length"
    using num by fastforce
qed auto

text \<open>
  The parser is the scanner's pushdown automaton over tokens: a stack with one frame for
  each open array or object (the scanner's \<^verbatim>\<open>parseState\<close>) and what is expected
  next. \<open>MemberFrame\<close> is an object whose current member has its name and waits for its
  value.
\<close>

datatype frame =
    ArrayFrame "json list"
  | ObjectFrame "(string \<times> json) list"
  | MemberFrame "(string \<times> json) list" string

datatype expect =
    ExpValue | ExpValueOrEnd | ExpKeyOrEnd | ExpKey | ExpColon | ExpCommaOrEnd

datatype progress = Failed | Finished json | Continue expect "frame list"

definition maxNestingDepth :: nat where
  "maxNestingDepth = 10000"

text \<open>\<^verbatim>\<open>stateEndValue\<close>: a value is complete and goes to the innermost open container.\<close>

fun complete :: "json \<Rightarrow> frame list \<Rightarrow> progress" where
  "complete v [] = Finished v"
| "complete v (ArrayFrame vs # st) = Continue ExpCommaOrEnd (ArrayFrame (vs @ [v]) # st)"
| "complete v (MemberFrame ms k # st) = Continue ExpCommaOrEnd (ObjectFrame (ms @ [(k, v)]) # st)"
| "complete v (ObjectFrame ms # st) = Failed"

text \<open>\<^verbatim>\<open>pushParseState\<close>, with its depth limit.\<close>

definition pushParseState :: "frame \<Rightarrow> frame list \<Rightarrow> expect \<Rightarrow> progress" where
  "pushParseState f st e =
     (if length (f # st) \<le> maxNestingDepth then Continue e (f # st) else Failed)"

fun stateBeginValue :: "token \<Rightarrow> frame list \<Rightarrow> progress" where
  "stateBeginValue (TString s) st = complete (JString s) st"
| "stateBeginValue (TNumber n) st = complete (JNumber n) st"
| "stateBeginValue TTrue st = complete (JBool True) st"
| "stateBeginValue TFalse st = complete (JBool False) st"
| "stateBeginValue TNull st = complete JNull st"
| "stateBeginValue TLBrack st = pushParseState (ArrayFrame []) st ExpValueOrEnd"
| "stateBeginValue TLBrace st = pushParseState (ObjectFrame []) st ExpKeyOrEnd"
| "stateBeginValue _ st = Failed"

fun stateBeginString :: "token \<Rightarrow> frame list \<Rightarrow> progress" where
  "stateBeginString (TString k) (ObjectFrame ms # st) = Continue ExpColon (MemberFrame ms k # st)"
| "stateBeginString _ _ = Failed"

fun step :: "expect \<Rightarrow> frame list \<Rightarrow> token \<Rightarrow> progress" where
  "step ExpValue st t = stateBeginValue t st"
| "step ExpValueOrEnd st t =
     (case (t, st) of
        (TRBrack, ArrayFrame vs # st') \<Rightarrow> complete (JArray vs) st'
      | _ \<Rightarrow> stateBeginValue t st)"
| "step ExpKeyOrEnd st t =
     (case (t, st) of
        (TRBrace, ObjectFrame ms # st') \<Rightarrow> complete (JObject ms) st'
      | _ \<Rightarrow> stateBeginString t st)"
| "step ExpKey st t = stateBeginString t st"
| "step ExpColon st t = (if t = TColon then Continue ExpValue st else Failed)"
| "step ExpCommaOrEnd st t =
     (case (t, st) of
        (TComma, ArrayFrame vs # st') \<Rightarrow> Continue ExpValue st
      | (TRBrack, ArrayFrame vs # st') \<Rightarrow> complete (JArray vs) st'
      | (TComma, ObjectFrame ms # st') \<Rightarrow> Continue ExpKey st
      | (TRBrace, ObjectFrame ms # st') \<Rightarrow> complete (JObject ms) st'
      | _ \<Rightarrow> Failed)"

text \<open>
  One value read from the head of the tokens; the tokens after it are returned unread.
\<close>

fun run :: "expect \<Rightarrow> frame list \<Rightarrow> token list \<Rightarrow> json_error + (json \<times> token list)" where
  "run e st [] = Inl SyntaxError"
| "run e st (t # ts) =
     (case step e st t of
        Failed \<Rightarrow> Inl SyntaxError
      | Finished v \<Rightarrow> Inr (v, ts)
      | Continue e' st' \<Rightarrow> run e' st' ts)"

text \<open>
  \<^verbatim>\<open>Decoder.Decode\<close> reads the first value of a stream and does not look at what
  follows it. \<^verbatim>\<open>Unmarshal\<close> first runs \<^verbatim>\<open>checkValid\<close> over all of its input, which
  must be one value with nothing but white space around it.
\<close>

definition readValue :: "string \<Rightarrow> json_error + json" where
  "readValue s = (case run ExpValue [] (lex s) of Inl e \<Rightarrow> Inl e | Inr (v, rest) \<Rightarrow> Inr v)"

definition checkValid :: "string \<Rightarrow> json_error + json" where
  "checkValid s =
     (case run ExpValue [] (lex s) of
        Inl e \<Rightarrow> Inl e
      | Inr (v, rest) \<Rightarrow> if rest = [] then Inr v else Inl SyntaxError)"

subsection \<open>The types of main.go\<close>

record ChatMessage =
  Role :: string
  Content :: string

record ChatRequest =
  Model :: string
  Messages :: "ChatMessage list"

record ChatChoice =
  Message :: ChatMessage

record ChatResponse =
  Choices :: "ChatChoice list"

record TextRequest =
  Text :: string

record RewriteRequest =
  Text :: string
  Tone :: string

text \<open>
  A \<^verbatim>\<open>[]string\<close> that is written to the client is an optional list: \<open>None\<close> is the
  nil slice, which the encoder writes as \<^verbatim>\<open>null\<close>, and \<open>Some []\<close> the empty one,
  written as \<^verbatim>\<open>[]\<close>. \<open>Choices\<close> is only measured and indexed, so there nil is the
  empty list.
\<close>

record SummarizeResponse =
  Summary :: string

record KeywordsResponse =
  Keywords :: "string list option"

record RewriteResponse =
  Text :: string

record QuestionsResponse =
  Questions :: "string list option"

record TitlesResponse =
  Titles :: "string list option"

record ExpandResponse =
  Text :: string

definition openAIURL :: string where
  "openAIURL = ''https://api.openai.com/v1/chat/completions''"

definition model :: string where
  "model = ''gpt-4o-mini''"

subsection \<open>encoding/json: decoding into the Go types\<close>

text \<open>
  An object key selects the field whose name it equals, or else the field with the same
  folded name. Folding makes ASCII letters upper case and maps the two other runes whose
  case orbit holds an ASCII letter, U+017F to S and U+212A to K; any other multi-byte rune
  folds to a multi-byte rune, which no field name of main.go contains, and is left as it
  is.
\<close>

fun foldName :: "string \<Rightarrow> string" where
  "foldName [] = []"
| "foldName [c] =
     (case map_of (zip ''abcdefghijklmnopqrstuvwxyz'' ''ABCDEFGHIJKLMNOPQRSTUVWXYZ'') c of
        Some u \<Rightarrow> [u]
      | None \<Rightarrow> [c])"
| "foldName (c # d # cs) =
     (if c = CHR 0xC5 \<and> d = CHR 0xBF then CHR ''S'' # foldName cs
      else if c = CHR 0xE2 \<and> d = CHR 0x84 \<and> take 1 cs = [CHR 0xAA] then CHR ''K'' # foldName (drop 1 cs)
      else
        (case map_of (zip ''abcdefghijklmnopqrstuvwxyz'' ''ABCDEFGHIJKLMNOPQRSTUVWXYZ'') c of
           Some u \<Rightarrow> u # foldName (d # cs)
         | None \<Rightarrow> c # foldName (d # cs)))"

definition field :: "string list \<Rightarrow> string \<Rightarrow> string option" where
  "field names key =
     (if key \<in> set names then Some key
      else find (\<lambda>n. foldName n = foldName key) names)"

text \<open>
  Decoding stores into a value that already exists: \<^verbatim>\<open>null\<close> leaves a string or a
  struct as it is and sets a slice to nil, an object sets the fields it names and keeps
  the others. A value that does not fit its target is recorded and the decoder goes on,
  but the caller gets the error and drops what was stored, so the model stops there.
\<close>

fun literalStore_string :: "json \<Rightarrow> string \<Rightarrow> json_error + string" where
  "literalStore_string (JString s) cur = Inr s"
| "literalStore_string JNull cur = Inr cur"
| "literalStore_string _ cur = Inl UnmarshalTypeError"

fun object :: "(string \<Rightarrow> json \<Rightarrow> 'a \<Rightarrow> json_error + 'a) \<Rightarrow> (string \<times> json) list \<Rightarrow> 'a
    \<Rightarrow> json_error + 'a" where
  "object setf [] v = Inr v"
| "object setf ((k, j) # ms) v =
     (case setf k j v of
        Inl e \<Rightarrow> Inl e
      | Inr v' \<Rightarrow> object setf ms v')"

fun value_struct :: "(string \<Rightarrow> json \<Rightarrow> 'a \<Rightarrow> json_error + 'a) \<Rightarrow> json \<Rightarrow> 'a \<Rightarrow> json_error + 'a" where
  "value_struct setf (JObject ms) v = object setf ms v"
| "value_struct setf JNull v = Inr v"
| "value_struct setf _ v = Inl UnmarshalTypeError"

definition set_TextRequest :: "string \<Rightarrow> json \<Rightarrow> TextRequest \<Rightarrow> json_error + TextRequest" where
  "set_TextRequest k j req =
     (case field [''text''] k of
        None \<Rightarrow> Inr req
      | Some n \<Rightarrow>
          (case literalStore_string j (TextRequest.Text req) of
             Inl e \<Rightarrow> Inl e
           | Inr s \<Rightarrow> Inr (req\<lparr>TextRequest.Text := s\<rparr>)))"

definition set_RewriteRequest :: "string \<Rightarrow> json \<Rightarrow> RewriteRequest \<Rightarrow> json_error + RewriteRequest" where
  "set_RewriteRequest k j req =
     (case field [''text'', ''tone''] k of
        None \<Rightarrow> Inr req
      | Some n \<Rightarrow>
          if n = ''text'' then
            (case literalStore_string j (RewriteRequest.Text req) of
               Inl e \<Rightarrow> Inl e
             | Inr s \<Rightarrow> Inr (req\<lparr>RewriteRequest.Text := s\<rparr>))
          else
            (case literalStore_string j (Tone req) of
               Inl e \<Rightarrow> Inl e
             | Inr s \<Rightarrow> Inr (req\<lparr>Tone := s\<rparr>)))"

definition set_ChatMessage :: "string \<Rightarrow> json \<Rightarrow> ChatMessage \<Rightarrow> json_error + ChatMessage" where
  "set_ChatMessage k j m =
     (case field [''role'', ''content''] k of
        None \<Rightarrow> Inr m
      | Some n \<Rightarrow>
          if n = ''role'' then
            (case literalStore_string j (Role m) of
               Inl e \<Rightarrow> Inl e
             | Inr s \<Rightarrow> Inr (m\<lparr>Role := s\<rparr>))
          else
            (case literalStore_string j (Content m) of
               Inl e \<Rightarrow> Inl e
             | Inr s \<Rightarrow> Inr (m\<lparr>Content := s\<rparr>)))"

definition set_ChatChoice :: "string \<Rightarrow> json \<Rightarrow> ChatChoice \<Rightarrow> json_error + ChatChoice" where
  "set_ChatChoice k j c =
     (case field [''message''] k of
        None \<Rightarrow> Inr c
      | Some n \<Rightarrow>
          (case value_struct set_ChatMessage j (Message c) of
             Inl e \<Rightarrow> Inl e
           | Inr m \<Rightarrow> Inr (c\<lparr>Message := m\<rparr>)))"

text \<open>
  An array stored into a slice: element \<open>i\<close> is decoded into the slot \<open>i\<close> of the
  backing array where the slice has one, and into a zero value where the slice had to
  grow. \<open>backing\<close> lists the slots the slice brings along.
\<close>

fun array :: "(json \<Rightarrow> 'a \<Rightarrow> json_error + 'a) \<Rightarrow> 'a \<Rightarrow> json list \<Rightarrow> 'a list \<Rightarrow> json_error + 'a list" where
  "array store zero [] backing = Inr []"
| "array store zero (j # js) backing =
     (case store j (case backing of [] \<Rightarrow> zero | b # _ \<Rightarrow> b) of
        Inl e \<Rightarrow> Inl e
      | Inr x \<Rightarrow>
          (case array store zero js (tl backing) of
             Inl e \<Rightarrow> Inl e
           | Inr xs \<Rightarrow> Inr (x # xs)))"

definition zero_ChatChoice :: ChatChoice where
  "zero_ChatChoice = \<lparr>Message = \<lparr>Role = [], Content = []\<rparr>\<rparr>"

text \<open>
  \<open>ChatResponse\<close> is decoded together with the backing array of its \<open>Choices\<close>, which
  a second \<^verbatim>\<open>choices\<close> member of the same object would write into.
\<close>

definition set_ChatResponse :: "string \<Rightarrow> json \<Rightarrow> ChatResponse \<times> ChatChoice list
    \<Rightarrow> json_error + ChatResponse \<times> ChatChoice list" where
  "set_ChatResponse k j st =
     (case field [''choices''] k of
        None \<Rightarrow> Inr st
      | Some n \<Rightarrow>
          (case j of
             JNull \<Rightarrow> Inr ((fst st)\<lparr>Choices := []\<rparr>, [])
           | JArray es \<Rightarrow>
               if es = [] then Inr ((fst st)\<lparr>Choices := []\<rparr>, [])
               else
                 (case array (value_struct set_ChatChoice) zero_ChatChoice es (snd st) of
                    Inl e \<Rightarrow> Inl e
                  | Inr cs \<Rightarrow> Inr ((fst st)\<lparr>Choices := cs\<rparr>, cs @ drop (length cs) (snd st)))
           | _ \<Rightarrow> Inl UnmarshalTypeError))"

text \<open>\<^verbatim>\<open>json.NewDecoder(body).Decode(&v)\<close> for a zero \<open>v\<close> of each type.\<close>

definition Decode_TextRequest :: "string \<Rightarrow> json_error + TextRequest" where
  "Decode_TextRequest b =
     (case readValue b of
        Inl e \<Rightarrow> Inl e
      | Inr j \<Rightarrow> value_struct set_TextRequest j \<lparr>TextRequest.Text = []\<rparr>)"

definition Decode_RewriteRequest :: "string \<Rightarrow> json_error + RewriteRequest" where
  "Decode_RewriteRequest b =
     (case readValue b of
        Inl e \<Rightarrow> Inl e
      | Inr j \<Rightarrow> value_struct set_RewriteRequest j \<lparr>RewriteRequest.Text = [], Tone = []\<rparr>)"

definition Decode_ChatResponse :: "string \<Rightarrow> json_error + ChatResponse" where
  "Decode_ChatResponse b =
     (case readValue b of
        Inl e \<Rightarrow> Inl e
      | Inr j \<Rightarrow>
          (case value_struct set_ChatResponse j (\<lparr>Choices = []\<rparr>, []) of
             Inl e \<Rightarrow> Inl e
           | Inr st \<Rightarrow> Inr (fst st)))"

text \<open>\<^verbatim>\<open>json.Unmarshal([]byte(out), &xs)\<close> for a nil \<^verbatim>\<open>xs []string\<close>.\<close>

definition Unmarshal_strings :: "string \<Rightarrow> json_error + string list option" where
  "Unmarshal_strings out =
     (case checkValid out of
        Inl e \<Rightarrow> Inl e
      | Inr j \<Rightarrow>
          (case j of
             JNull \<Rightarrow> Inr None
           | JArray es \<Rightarrow>
               (case array literalStore_string [] es [] of
                  Inl e \<Rightarrow> Inl e
                | Inr xs \<Rightarrow> Inr (Some xs))
           | _ \<Rightarrow> Inl UnmarshalTypeError))"

text \<open>
  \<^verbatim>\<open>Encoder.Encode\<close> of the response types, as the JSON document it writes. The strings
  it is given come out of \<open>unquote\<close> and are written as they are.
\<close>

definition encode_strings :: "string list option \<Rightarrow> json" where
  "encode_strings v = (case v of None \<Rightarrow> JNull | Some xs \<Rightarrow> JArray (map JString xs))"

definition Encode_SummarizeResponse :: "SummarizeResponse \<Rightarrow> json" where
  "Encode_SummarizeResponse r = JObject [(''summary'', JString (Summary r))]"

definition Encode_KeywordsResponse :: "KeywordsResponse \<Rightarrow> json" where
  "Encode_KeywordsResponse r = JObject [(''keywords'', encode_strings (Keywords r))]"

definition Encode_RewriteResponse :: "RewriteResponse \<Rightarrow> json" where
  "Encode_RewriteResponse r = JObject [(''text'', JString (RewriteResponse.Text r))]"

definition Encode_QuestionsResponse :: "QuestionsResponse \<Rightarrow> json" where
  "Encode_QuestionsResponse r = JObject [(''questions'', encode_strings (Questions r))]"

definition Encode_TitlesResponse :: "TitlesResponse \<Rightarrow> json" where
  "Encode_TitlesResponse r = JObject [(''titles'', encode_strings (Titles r))]"

definition Encode_ExpandResponse :: "ExpandResponse \<Rightarrow> json" where
  "Encode_ExpandResponse r = JObject [(''text'', JString (ExpandResponse.Text r))]"

subsection \<open>net/http and log as values\<close>

text \<open>
  Of the inbound request the handlers read the method, the path of the URL and the body.
  A response is its status, its content type and its body: the text \<^verbatim>\<open>http.Error\<close>
  prints (the message and a newline), the JSON document \<open>writeJSON\<close> encodes, or the
  page \<^verbatim>\<open>indexHTML\<close>, a constant whose text plays no part here.
\<close>

record request =
  Method :: string
  Path :: string
  Body :: string

datatype payload = Plain string | Document json | IndexHTML

record response =
  status :: nat
  content_type :: string
  body :: payload

definition StatusOK :: nat where
  "StatusOK = 200"

definition StatusBadRequest :: nat where
  "StatusBadRequest = 400"

definition StatusNotFound :: nat where
  "StatusNotFound = 404"

definition StatusMethodNotAllowed :: nat where
  "StatusMethodNotAllowed = 405"

definition StatusInternalServerError :: nat where
  "StatusInternalServerError = 500"

definition http_Error :: "string \<Rightarrow> nat \<Rightarrow> response" where
  "http_Error msg code =
     \<lparr>status = code, content_type = ''text/plain; charset=utf-8'', body = Plain (msg @ [CHR 0x0A])\<rparr>"

definition writeJSON :: "nat \<Rightarrow> json \<Rightarrow> response" where
  "writeJSON st v = \<lparr>status = st, content_type = ''application/json'', body = Document v\<rparr>"

text \<open>
  The outbound side. \<open>http_request\<close> is what \<open>callLLM\<close> hands to
  \<^verbatim>\<open>http.DefaultClient.Do\<close>, its body being the \<open>ChatRequest\<close> that \<^verbatim>\<open>json.Marshal\<close>
  rendered. The client is a function from that request to its error text or to the
  status and body of the response.
\<close>

record http_request =
  req_method :: string
  req_url :: string
  req_authorization :: string
  req_content_type :: string
  req_body :: ChatRequest

record http_response =
  StatusCode :: nat
  resp_Body :: string

type_synonym client = "http_request \<Rightarrow> string + http_response"

text \<open>
  The errors \<open>callLLM\<close> returns: the client's own error, the two it builds with
  \<^verbatim>\<open>fmt.Errorf\<close>, and the decoder's.
\<close>

datatype llm_error =
    DoError string
  | UpstreamError nat string
  | DecodeError json_error
  | EmptyResponseError

function decimal :: "nat \<Rightarrow> string" where
  "decimal n =
     (if n < 10 then [char_of (of_char (CHR ''0'') + n)]
      else decimal (n div 10) @ [char_of (of_char (CHR ''0'') + n mod 10)])"
  by pat_completeness auto
termination
  by (relation "measure id") auto

text \<open>The texts of the two errors that main.go formats itself.\<close>

definition Errorf_upstream :: "nat \<Rightarrow> string \<Rightarrow> string" where
  "Errorf_upstream st b = ''OpenAI error: status='' @ decimal st @ '' body='' @ b"

definition Errorf_no_choices :: string where
  "Errorf_no_choices = ''no choices from LLM''"

text \<open>
  What serving one request leaves behind: the response, the requests sent upstream (one
  for each call of \<open>callLLM\<close>), and the lines logged, each the prefix the handler gives
  \<^verbatim>\<open>log.Println\<close> and the error.
\<close>

record outcome =
  resp :: response
  calls :: "http_request list"
  logged :: "(string \<times> llm_error) list"

type_synonym handler = "client \<Rightarrow> request \<Rightarrow> outcome"

subsection \<open>The LLM call helper\<close>

text \<open>
  \<^verbatim>\<open>json.Marshal\<close> of a \<open>ChatRequest\<close> and \<^verbatim>\<open>http.NewRequest\<close> with the constant URL
  do not fail, so their error branches have no counterpart. The result comes with the
  request that was sent.
\<close>

definition callLLM :: "client \<Rightarrow> string \<Rightarrow> string \<Rightarrow> (llm_error + string) \<times> http_request list" where
  "callLLM do apiKey prompt =
     (let body = \<lparr>Model = model,
                  Messages = [\<lparr>Role = ''system'', Content = ''You are a helpful text-processing assistant.''\<rparr>,
                              \<lparr>Role = ''user'', Content = prompt\<rparr>]\<rparr>;
          req = \<lparr>req_method = ''POST'', req_url = openAIURL,
                 req_authorization = ''Bearer '' @ apiKey,
                 req_content_type = ''application/json'', req_body = body\<rparr>
      in ((case do req of
             Inl err \<Rightarrow> Inl (DoError err)
           | Inr r \<Rightarrow>
               if StatusCode r \<ge> 400 then Inl (UpstreamError (StatusCode r) (resp_Body r))
               else
                 (case Decode_ChatResponse (resp_Body r) of
                    Inl err \<Rightarrow> Inl (DecodeError err)
                  | Inr cr \<Rightarrow>
                      (case Choices cr of
                         [] \<Rightarrow> Inl EmptyResponseError
                       | c # _ \<Rightarrow> Inr (Content (Message c))))),
          [req]))"

subsection \<open>The API handlers\<close>

definition uiHandler :: handler where
  "uiHandler do r =
     (if Path r \<noteq> ''/'' \<or> Method r \<noteq> ''GET'' then
        \<lparr>resp = http_Error ''404 page not found'' StatusNotFound, calls = [], logged = []\<rparr>
      else
        \<lparr>resp = \<lparr>status = StatusOK, content_type = ''text/html; charset=utf-8'', body = IndexHTML\<rparr>,
         calls = [], logged = []\<rparr>)"

definition healthHandler :: handler where
  "healthHandler do r =
     \<lparr>resp = writeJSON StatusOK (JObject [(''status'', JString ''ok'')]), calls = [], logged = []\<rparr>"

definition endash :: string where
  "endash = [CHR 0xE2, CHR 0x80, CHR 0x93]"

definition summarizeHandler :: "string \<Rightarrow> handler" where
  "summarizeHandler apiKey do r =
     (case Decode_TextRequest (Body r) of
        Inl err \<Rightarrow>
          \<lparr>resp = http_Error ''invalid JSON body'' StatusBadRequest, calls = [], logged = []\<rparr>
      | Inr req \<Rightarrow>
          if TextRequest.Text req = [] then
            \<lparr>resp = http_Error ''`text` is required'' StatusBadRequest, calls = [], logged = []\<rparr>
          else
            (let prompt = ''Summarize the following text in 3'' @ endash
                   @ ''5 bullet points. Be concise and clear.'' @ [CHR 0x0A, CHR 0x0A]
                   @ TextRequest.Text req
             in case callLLM do apiKey prompt of
                  (Inl err, sent) \<Rightarrow>
                    \<lparr>resp = http_Error ''LLM error'' StatusInternalServerError, calls = sent,
                     logged = [(''summarize error:'', err)]\<rparr>
                | (Inr out, sent) \<Rightarrow>
                    \<lparr>resp = writeJSON StatusOK (Encode_SummarizeResponse \<lparr>Summary = out\<rparr>),
                     calls = sent, logged = []\<rparr>))"

definition keywordsHandler :: "string \<Rightarrow> handler" where
  \<open>keywordsHandler apiKey do r =
     (case Decode_TextRequest (Body r) of
        Inl err \<Rightarrow>
          \<lparr>resp = http_Error ''invalid JSON body'' StatusBadRequest, calls = [], logged = []\<rparr>
      | Inr req \<Rightarrow>
          if TextRequest.Text req = [] then
            \<lparr>resp = http_Error ''`text` is required'' StatusBadRequest, calls = [], logged = []\<rparr>
          else
            (let prompt = ''Extract 5'' @ endash @ ''10 key keywords from the text below.'' @ [CHR 0x0A]
                   @ ''Return ONLY a JSON array of strings. Example: ["keyword1","keyword2"].''
                   @ [CHR 0x0A, CHR 0x0A] @ ''Text:'' @ [CHR 0x0A]
                   @ TextRequest.Text req
             in case callLLM do apiKey prompt of
                  (Inl err, sent) \<Rightarrow>
                    \<lparr>resp = http_Error ''LLM error'' StatusInternalServerError, calls = sent,
                     logged = [(''keywords error:'', err)]\<rparr>
                | (Inr out, sent) \<Rightarrow>
                    (let kws = (case Unmarshal_strings out of
                                  Inl err \<Rightarrow> Some [out]
                                | Inr v \<Rightarrow> v)
                     in \<lparr>resp = writeJSON StatusOK (Encode_KeywordsResponse \<lparr>Keywords = kws\<rparr>),
                         calls = sent, logged = []\<rparr>)))\<close>

definition rewriteHandler :: "string \<Rightarrow> handler" where
  "rewriteHandler apiKey do r =
     (case Decode_RewriteRequest (Body r) of
        Inl err \<Rightarrow>
          \<lparr>resp = http_Error ''invalid JSON body'' StatusBadRequest, calls = [], logged = []\<rparr>
      | Inr req \<Rightarrow>
          if RewriteRequest.Text req = [] then
            \<lparr>resp = http_Error ''`text` is required'' StatusBadRequest, calls = [], logged = []\<rparr>
          else
            (let tone = (if Tone req = [] then ''neutral'' else Tone req);
                 prompt = ''Rewrite the following text in a '' @ tone
                   @ '' tone. Preserve the original meaning. Respond with ONLY the rewritten text.''
                   @ [CHR 0x0A, CHR 0x0A] @ RewriteRequest.Text req
             in case callLLM do apiKey prompt of
                  (Inl err, sent) \<Rightarrow>
                    \<lparr>resp = http_Error ''LLM error'' StatusInternalServerError, calls = sent,
                     logged = [(''rewrite error:'', err)]\<rparr>
                | (Inr out, sent) \<Rightarrow>
                    \<lparr>resp = writeJSON StatusOK (Encode_RewriteResponse \<lparr>RewriteResponse.Text = out\<rparr>),
                     calls = sent, logged = []\<rparr>))"

definition questionsHandler :: "string \<Rightarrow> handler" where
  \<open>questionsHandler apiKey do r =
     (case Decode_TextRequest (Body r) of
        Inl err \<Rightarrow>
          \<lparr>resp = http_Error ''invalid JSON body'' StatusBadRequest, calls = [], logged = []\<rparr>
      | Inr req \<Rightarrow>
          if TextRequest.Text req = [] then
            \<lparr>resp = http_Error ''`text` is required'' StatusBadRequest, calls = [], logged = []\<rparr>
          else
            (let prompt = ''From the text below, generate 5'' @ endash
                   @ ''10 clear, helpful questions.'' @ [CHR 0x0A]
                   @ ''Return ONLY a JSON array of strings. Example: ["Question 1?", "Question 2?"].''
                   @ [CHR 0x0A, CHR 0x0A] @ ''Text:'' @ [CHR 0x0A]
                   @ TextRequest.Text req
             in case callLLM do apiKey prompt of
                  (Inl err, sent) \<Rightarrow>
                    \<lparr>resp = http_Error ''LLM error'' StatusInternalServerError, calls = sent,
                     logged = [(''questions error:'', err)]\<rparr>
                | (Inr out, sent) \<Rightarrow>
                    (let qs = (case Unmarshal_strings out of
                                 Inl err \<Rightarrow> Some [out]
                               | Inr v \<Rightarrow> v)
                     in \<lparr>resp = writeJSON StatusOK (Encode_QuestionsResponse \<lparr>Questions = qs\<rparr>),
                         calls = sent, logged = []\<rparr>)))\<close>

definition titlesHandler :: "string \<Rightarrow> handler" where
  \<open>titlesHandler apiKey do r =
     (case Decode_TextRequest (Body r) of
        Inl err \<Rightarrow>
          \<lparr>resp = http_Error ''invalid JSON body'' StatusBadRequest, calls = [], logged = []\<rparr>
      | Inr req \<Rightarrow>
          if TextRequest.Text req = [] then
            \<lparr>resp = http_Error ''`text` is required'' StatusBadRequest, calls = [], logged = []\<rparr>
          else
            (let prompt = ''Generate 5 concise, engaging title ideas for the text below.'' @ [CHR 0x0A]
                   @ ''Return ONLY a JSON array of strings. Example: ["Title 1", "Title 2"].''
                   @ [CHR 0x0A, CHR 0x0A] @ ''Text:'' @ [CHR 0x0A]
                   @ TextRequest.Text req
             in case callLLM do apiKey prompt of
                  (Inl err, sent) \<Rightarrow>
                    \<lparr>resp = http_Error ''LLM error'' StatusInternalServerError, calls = sent,
                     logged = [(''titles error:'', err)]\<rparr>
                | (Inr out, sent) \<Rightarrow>
                    (let titles = (case Unmarshal_strings out of
                                     Inl err \<Rightarrow> Some [out]
                                   | Inr v \<Rightarrow> v)
                     in \<lparr>resp = writeJSON StatusOK (Encode_TitlesResponse \<lparr>Titles = titles\<rparr>),
                         calls = sent, logged = []\<rparr>)))\<close>

definition expandHandler :: "string \<Rightarrow> handler" where
  "expandHandler apiKey do r =
     (case Decode_TextRequest (Body r) of
        Inl err \<Rightarrow>
          \<lparr>resp = http_Error ''invalid JSON body'' StatusBadRequest, calls = [], logged = []\<rparr>
      | Inr req \<Rightarrow>
          if TextRequest.Text req = [] then
            \<lparr>resp = http_Error ''`text` is required'' StatusBadRequest, calls = [], logged = []\<rparr>
          else
            (let prompt = ''Expand and elaborate on the following text.'' @ [CHR 0x0A]
                   @ ''Add helpful explanations and details but keep it clear and readable.'' @ [CHR 0x0A]
                   @ ''Respond with ONLY the expanded text.''
                   @ [CHR 0x0A, CHR 0x0A] @ ''Text:'' @ [CHR 0x0A]
                   @ TextRequest.Text req
             in case callLLM do apiKey prompt of
                  (Inl err, sent) \<Rightarrow>
                    \<lparr>resp = http_Error ''LLM error'' StatusInternalServerError, calls = sent,
                     logged = [(''expand error:'', err)]\<rparr>
                | (Inr out, sent) \<Rightarrow>
                    \<lparr>resp = writeJSON StatusOK (Encode_ExpandResponse \<lparr>ExpandResponse.Text = out\<rparr>),
                     calls = sent, logged = []\<rparr>))"

definition withMethod :: "string \<Rightarrow> handler \<Rightarrow> handler" where
  "withMethod method h do r =
     (if Method r \<noteq> method then
        \<lparr>resp = http_Error ''method not allowed'' StatusMethodNotAllowed, calls = [], logged = []\<rparr>
      else h do r)"

text \<open>
  The patterns \<open>main\<close> registers on the mux, each with its handler. The dispatch of
  \<^verbatim>\<open>http.ServeMux\<close> and the \<^verbatim>\<open>logRequest\<close> wrapper around it are not modelled.
\<close>

definition routes :: "string \<Rightarrow> (string \<times> handler) list" where
  "routes apiKey =
     [(''/'', uiHandler),
      (''/health'', healthHandler),
      (''/summarize'', withMethod ''POST'' (summarizeHandler apiKey)),
      (''/keywords'', withMethod ''POST'' (keywordsHandler apiKey)),
      (''/rewrite'', withMethod ''POST'' (rewriteHandler apiKey)),
      (''/questions'', withMethod ''POST'' (questionsHandler apiKey)),
      (''/titles'', withMethod ''POST'' (titlesHandler apiKey)),
      (''/expand'', withMethod ''POST'' (expandHandler apiKey))]"

text \<open>
  The six endpoints that take a text, the handler each one names and the handler that is
  registered for it.
\<close>

datatype endpoint = Summarize | Keywords | Rewrite | Questions | Titles | Expand

fun pattern :: "endpoint \<Rightarrow> string" where
  "pattern Summarize = ''/summarize''"
| "pattern Keywords = ''/keywords''"
| "pattern Rewrite = ''/rewrite''"
| "pattern Questions = ''/questions''"
| "pattern Titles = ''/titles''"
| "pattern Expand = ''/expand''"

fun handlerOf :: "endpoint \<Rightarrow> string \<Rightarrow> handler" where
  "handlerOf Summarize = summarizeHandler"
| "handlerOf Keywords = keywordsHandler"
| "handlerOf Rewrite = rewriteHandler"
| "handlerOf Questions = questionsHandler"
| "handlerOf Titles = titlesHandler"
| "handlerOf Expand = expandHandler"

definition registered :: "string \<Rightarrow> endpoint \<Rightarrow> handler" where
  "registered apiKey ep = withMethod ''POST'' (handlerOf ep apiKey)"

subsection \<open>The endpoints side by side\<close>

text \<open>
  The six handlers differ in the request type, the prompt, the log prefix and the shape of
  the answer. The definitions below name these differences, so that a property can be
  stated once for all endpoints. \<open>decoded\<close> is the request an endpoint decodes from a
  body, a \<open>TextRequest\<close> being shown as a \<open>RewriteRequest\<close> without tone.
\<close>

definition decoded :: "endpoint \<Rightarrow> string \<Rightarrow> json_error + RewriteRequest" where
  "decoded ep b =
     (if ep = Rewrite then Decode_RewriteRequest b
      else
        (case Decode_TextRequest b of
           Inl e \<Rightarrow> Inl e
         | Inr req \<Rightarrow> Inr \<lparr>RewriteRequest.Text = TextRequest.Text req, Tone = []\<rparr>))"

definition default_tone :: "string \<Rightarrow> string" where
  "default_tone tone = (if tone = [] then ''neutral'' else tone)"

text \<open>
  The prompt templates as the interface description lists them, with the tone and the
  text put in; the three that it leaves open are the literals of the handlers.
\<close>

fun template :: "endpoint \<Rightarrow> string \<Rightarrow> string \<Rightarrow> string" where
  "template Summarize tone text =
     ''Summarize the following text in 3'' @ [CHR 0xE2, CHR 0x80, CHR 0x93]
       @ ''5 bullet points. Be concise and clear.'' @ [CHR 0x0A, CHR 0x0A] @ text"
| \<open>template Keywords tone text =
     ''Extract 5'' @ [CHR 0xE2, CHR 0x80, CHR 0x93] @ ''10 key keywords from the text below.''
       @ [CHR 0x0A] @ ''Return ONLY a JSON array of strings. Example: ["keyword1","keyword2"].''
       @ [CHR 0x0A, CHR 0x0A] @ ''Text:'' @ [CHR 0x0A] @ text\<close>
| "template Rewrite tone text =
     ''Rewrite the following text in a '' @ tone
       @ '' tone. Preserve the original meaning. Respond with ONLY the rewritten text.''
       @ [CHR 0x0A, CHR 0x0A] @ text"
| \<open>template Questions tone text =
     ''From the text below, generate 5'' @ [CHR 0xE2, CHR 0x80, CHR 0x93]
       @ ''10 clear, helpful questions.'' @ [CHR 0x0A]
       @ ''Return ONLY a JSON array of strings. Example: ["Question 1?", "Question 2?"].''
       @ [CHR 0x0A, CHR 0x0A] @ ''Text:'' @ [CHR 0x0A] @ text\<close>
| \<open>template Titles tone text =
     ''Generate 5 concise, engaging title ideas for the text below.'' @ [CHR 0x0A]
       @ ''Return ONLY a JSON array of strings. Example: ["Title 1", "Title 2"].''
       @ [CHR 0x0A, CHR 0x0A] @ ''Text:'' @ [CHR 0x0A] @ text\<close>
| "template Expand tone text =
     ''Expand and elaborate on the following text.'' @ [CHR 0x0A]
       @ ''Add helpful explanations and details but keep it clear and readable.'' @ [CHR 0x0A]
       @ ''Respond with ONLY the expanded text.''
       @ [CHR 0x0A, CHR 0x0A] @ ''Text:'' @ [CHR 0x0A] @ text"

definition prompt_for :: "endpoint \<Rightarrow> RewriteRequest \<Rightarrow> string" where
  "prompt_for ep req = template ep (default_tone (Tone req)) (RewriteRequest.Text req)"

fun field_name :: "endpoint \<Rightarrow> string" where
  "field_name Summarize = ''summary''"
| "field_name Keywords = ''keywords''"
| "field_name Rewrite = ''text''"
| "field_name Questions = ''questions''"
| "field_name Titles = ''titles''"
| "field_name Expand = ''text''"

fun log_prefix :: "endpoint \<Rightarrow> string" where
  "log_prefix Summarize = ''summarize error:''"
| "log_prefix Keywords = ''keywords error:''"
| "log_prefix Rewrite = ''rewrite error:''"
| "log_prefix Questions = ''questions error:''"
| "log_prefix Titles = ''titles error:''"
| "log_prefix Expand = ''expand error:''"

fun list_shaped :: "endpoint \<Rightarrow> bool" where
  "list_shaped Keywords = True"
| "list_shaped Questions = True"
| "list_shaped Titles = True"
| "list_shaped _ = False"

text \<open>
  The document a handler answers with when \<open>callLLM\<close> returned \<open>out\<close>.
\<close>

definition answer :: "endpoint \<Rightarrow> string \<Rightarrow> json" where
  "answer ep out =
     JObject [(field_name ep,
               if list_shaped ep
               then encode_strings (case Unmarshal_strings out of Inl err \<Rightarrow> Some [out] | Inr v \<Rightarrow> v)
               else JString out)]"

text \<open>
  Two readings of a reply. \<open>as_string_array\<close> is the reply as a JSON array of strings:
  the whole reply is one JSON value, that value is an array, and every element is a
  string. \<open>as_lenient_array\<close> also takes \<^verbatim>\<open>null\<close> for an element, which stands for
  the empty string.
\<close>

fun string_elems :: "json list \<Rightarrow> string list option" where
  "string_elems [] = Some []"
| "string_elems (JString s # js) = map_option ((#) s) (string_elems js)"
| "string_elems (_ # js) = None"

definition as_string_array :: "string \<Rightarrow> string list option" where
  "as_string_array out =
     (case checkValid out of
        Inr (JArray es) \<Rightarrow> string_elems es
      | _ \<Rightarrow> None)"

fun lenient_elems :: "json list \<Rightarrow> string list option" where
  "lenient_elems [] = Some []"
| "lenient_elems (JString s # js) = map_option ((#) s) (lenient_elems js)"
| "lenient_elems (JNull # js) = map_option ((#) []) (lenient_elems js)"
| "lenient_elems (_ # js) = None"

definition as_lenient_array :: "string \<Rightarrow> string list option" where
  "as_lenient_array out =
     (case checkValid out of
        Inr (JArray es) \<Rightarrow> lenient_elems es
      | _ \<Rightarrow> None)"

definition is_null :: "string \<Rightarrow> bool" where
  "is_null out = (checkValid out = Inr JNull)"

text \<open>
  Which JSON values the decoder stores into each Go type without an error, read off the
  value alone. A struct takes \<^verbatim>\<open>null\<close> or an object in which every member that selects
  one of its fields has a value that field takes; members that select no field are
  skipped. A string field takes a string or \<^verbatim>\<open>null\<close>, a slice \<^verbatim>\<open>null\<close> or an array
  of values its element type takes.
\<close>

fun string_or_null :: "json \<Rightarrow> bool" where
  "string_or_null (JString s) = True"
| "string_or_null JNull = True"
| "string_or_null _ = False"

fun fits_struct :: "string list \<Rightarrow> (json \<Rightarrow> bool) \<Rightarrow> json \<Rightarrow> bool" where
  "fits_struct names ok JNull = True"
| "fits_struct names ok (JObject ms) = list_all (\<lambda>(k, v). field names k = None \<or> ok v) ms"
| "fits_struct names ok _ = False"

definition request_fields :: "endpoint \<Rightarrow> string list" where
  "request_fields ep = (if ep = Rewrite then [''text'', ''tone''] else [''text''])"

definition fits_request :: "endpoint \<Rightarrow> json \<Rightarrow> bool" where
  "fits_request ep = fits_struct (request_fields ep) string_or_null"

definition fits_ChatMessage :: "json \<Rightarrow> bool" where
  "fits_ChatMessage = fits_struct [''role'', ''content''] string_or_null"

definition fits_ChatChoice :: "json \<Rightarrow> bool" where
  "fits_ChatChoice = fits_struct [''message''] fits_ChatMessage"

fun fits_choices :: "json \<Rightarrow> bool" where
  "fits_choices JNull = True"
| "fits_choices (JArray es) = list_all fits_ChatChoice es"
| "fits_choices _ = False"

definition fits_ChatResponse :: "json \<Rightarrow> bool" where
  "fits_ChatResponse = fits_struct [''choices''] fits_choices"

text \<open>The success statuses in the words of the specification: 2xx and 3xx.\<close>

definition is_2xx_3xx :: "nat \<Rightarrow> bool" where
  "is_2xx_3xx st = (200 \<le> st \<and> st < 400)"

definition backslash :: char where
  "backslash = CHR 0x5C"

section \<open>Properties\<close>

subsection \<open>All handlers follow one template\<close>

lemma callLLM_sent:
  "snd (callLLM do apiKey prompt) =
     [\<lparr>req_method = ''POST'', req_url = openAIURL, req_authorization = ''Bearer '' @ apiKey,
       req_content_type = ''application/json'',
       req_body = \<lparr>Model = model,
                    Messages = [\<lparr>Role = ''system'',
                                 Content = ''You are a helpful text-processing assistant.''\<rparr>,
                                \<lparr>Role = ''user'', Content = prompt\<rparr>]\<rparr>\<rparr>]"
  by (simp add: callLLM_def Let_def)

lemma handlerOf_template:
  "handlerOf ep apiKey do r =
     (case decoded ep (Body r) of
        Inl err \<Rightarrow>
          \<lparr>resp = http_Error ''invalid JSON body'' StatusBadRequest, calls = [], logged = []\<rparr>
      | Inr req \<Rightarrow>
          if RewriteRequest.Text req = [] then
            \<lparr>resp = http_Error ''`text` is required'' StatusBadRequest, calls = [], logged = []\<rparr>
          else
            (case callLLM do apiKey (prompt_for ep req) of
               (Inl err, sent) \<Rightarrow>
                 \<lparr>resp = http_Error ''LLM error'' StatusInternalServerError, calls = sent,
                  logged = [(log_prefix ep, err)]\<rparr>
             | (Inr out, sent) \<Rightarrow>
                 \<lparr>resp = writeJSON StatusOK (answer ep out), calls = sent, logged = []\<rparr>))"
proof (cases ep)
  case Summarize
  show ?thesis
  proof (cases "Decode_TextRequest (Body r)")
    case (Inl e)
    with Summarize show ?thesis
      by (simp add: summarizeHandler_def decoded_def)
  next
    case (Inr req)
    obtain res sent where c: "callLLM do apiKey (prompt_for Summarize
        \<lparr>RewriteRequest.Text = TextRequest.Text req, Tone = []\<rparr>) = (res, sent)"
      by (cases "callLLM do apiKey (prompt_for Summarize
        \<lparr>RewriteRequest.Text = TextRequest.Text req, Tone = []\<rparr>)")
    from Summarize Inr c show ?thesis
      by (cases res)
         (simp_all add: summarizeHandler_def decoded_def answer_def Encode_SummarizeResponse_def Let_def prompt_for_def
            endash_def default_tone_def)
  qed
next
  case Keywords
  show ?thesis
  proof (cases "Decode_TextRequest (Body r)")
    case (Inl e)
    with Keywords show ?thesis
      by (simp add: keywordsHandler_def decoded_def)
  next
    case (Inr req)
    obtain res sent where c: "callLLM do apiKey (prompt_for Keywords
        \<lparr>RewriteRequest.Text = TextRequest.Text req, Tone = []\<rparr>) = (res, sent)"
      by (cases "callLLM do apiKey (prompt_for Keywords
        \<lparr>RewriteRequest.Text = TextRequest.Text req, Tone = []\<rparr>)")
    from Keywords Inr c show ?thesis
      by (cases res)
         (simp_all add: keywordsHandler_def decoded_def answer_def Encode_KeywordsResponse_def Let_def prompt_for_def
            endash_def default_tone_def)
  qed
next
  case Rewrite
  show ?thesis
  proof (cases "Decode_RewriteRequest (Body r)")
    case (Inl e)
    with Rewrite show ?thesis
      by (simp add: rewriteHandler_def decoded_def)
  next
    case (Inr req)
    obtain res sent where c: "callLLM do apiKey (prompt_for Rewrite req) = (res, sent)"
      by (cases "callLLM do apiKey (prompt_for Rewrite req)")
    from Rewrite Inr c show ?thesis
      by (cases res)
         (simp_all add: rewriteHandler_def decoded_def answer_def Encode_RewriteResponse_def Let_def prompt_for_def
            endash_def default_tone_def)
  qed
next
  case Questions
  show ?thesis
  proof (cases "Decode_TextRequest (Body r)")
    case (Inl e)
    with Questions show ?thesis
      by (simp add: questionsHandler_def decoded_def)
  next
    case (Inr req)
    obtain res sent where c: "callLLM do apiKey (prompt_for Questions
        \<lparr>RewriteRequest.Text = TextRequest.Text req, Tone = []\<rparr>) = (res, sent)"
      by (cases "callLLM do apiKey (prompt_for Questions
        \<lparr>RewriteRequest.Text = TextRequest.Text req, Tone = []\<rparr>)")
    from Questions Inr c show ?thesis
      by (cases res)
         (simp_all add: questionsHandler_def decoded_def answer_def Encode_QuestionsResponse_def Let_def prompt_for_def
            endash_def default_tone_def)
  qed
next
  case Titles
  show ?thesis
  proof (cases "Decode_TextRequest (Body r)")
    case (Inl e)
    with Titles show ?thesis
      by (simp add: titlesHandler_def decoded_def)
  next
    case (Inr req)
    obtain res sent where c: "callLLM do apiKey (prompt_for Titles
        \<lparr>RewriteRequest.Text = TextRequest.Text req, Tone = []\<rparr>) = (res, sent)"
      by (cases "callLLM do apiKey (prompt_for Titles
        \<lparr>RewriteRequest.Text = TextRequest.Text req, Tone = []\<rparr>)")
    from Titles Inr c show ?thesis
      by (cases res)
         (simp_all add: titlesHandler_def decoded_def answer_def Encode_TitlesResponse_def Let_def prompt_for_def
            endash_def default_tone_def)
  qed
next
  case Expand
  show ?thesis
  proof (cases "Decode_TextRequest (Body r)")
    case (Inl e)
    with Expand show ?thesis
      by (simp add: expandHandler_def decoded_def)
  next
    case (Inr req)
    obtain res sent where c: "callLLM do apiKey (prompt_for Expand
        \<lparr>RewriteRequest.Text = TextRequest.Text req, Tone = []\<rparr>) = (res, sent)"
      by (cases "callLLM do apiKey (prompt_for Expand
        \<lparr>RewriteRequest.Text = TextRequest.Text req, Tone = []\<rparr>)")
    from Expand Inr c show ?thesis
      by (cases res)
         (simp_all add: expandHandler_def decoded_def answer_def Encode_ExpandResponse_def Let_def prompt_for_def
            endash_def default_tone_def)
  qed
qed

subsection \<open>Facts about replies and handlers\<close>

lemma array_string_elems:
  "string_elems es = Some xs \<Longrightarrow> array literalStore_string [] es [] = Inr xs"
proof (induction es arbitrary: xs rule: string_elems.induct)
qed auto

lemma array_lenient_elems:
  "array literalStore_string [] es [] =
     (case lenient_elems es of None \<Rightarrow> Inl UnmarshalTypeError | Some xs \<Rightarrow> Inr xs)"
  by (induction es rule: lenient_elems.induct) (auto split: option.splits)

lemma string_elems_map:
  "string_elems es = Some xs \<Longrightarrow> es = map JString xs"
  by (induction es arbitrary: xs rule: string_elems.induct) auto

lemma Unmarshal_strings_array:
  assumes "as_string_array out = Some xs"
  shows "Unmarshal_strings out = Inr (Some xs)"
proof -
  from assms obtain es where "checkValid out = Inr (JArray es)" "string_elems es = Some xs"
    by (auto simp: as_string_array_def split: sum.splits json.splits)
  then show ?thesis
    by (simp add: Unmarshal_strings_def array_string_elems)
qed

lemma Unmarshal_strings_rejects:
  assumes "\<not> is_null out" and "as_lenient_array out = None"
  shows "\<exists>e. Unmarshal_strings out = Inl e"
  using assms
  by (auto simp: Unmarshal_strings_def is_null_def as_lenient_array_def array_lenient_elems
      split: sum.splits json.splits option.splits)

lemma Unmarshal_strings_examples:
  \<open>Unmarshal_strings ''null'' = Inr None
   \<and> Unmarshal_strings ''[]'' = Inr (Some [])
   \<and> Unmarshal_strings ''["a", null]'' = Inr (Some [''a'', []])
   \<and> Unmarshal_strings ''["a", 1]'' = Inl UnmarshalTypeError
   \<and> Unmarshal_strings ''"a"'' = Inl UnmarshalTypeError
   \<and> Unmarshal_strings ''["a",]'' = Inl SyntaxError
   \<and> Unmarshal_strings ''one two three'' = Inl SyntaxError\<close>
  by (simp add: Unmarshal_strings_def checkValid_def isSpace_def isDigit_def pushParseState_def
      maxNestingDepth_def simple_escape_def scan_number_def scan_int_def scan_frac_def
      scan_exp_def scan_digits1_def)

lemma handler_after_reply:
  assumes "decoded ep (Body r) = Inr req"
    and "RewriteRequest.Text req \<noteq> []"
    and "fst (callLLM do apiKey (prompt_for ep req)) = Inr out"
  shows "resp (handlerOf ep apiKey do r) = writeJSON StatusOK (answer ep out)"
proof -
  obtain sent where "callLLM do apiKey (prompt_for ep req) = (Inr out, sent)"
    using assms(3) by (cases "callLLM do apiKey (prompt_for ep req)") simp
  with assms(1,2) show ?thesis
    by (simp add: handlerOf_template)
qed

lemma upstream_text_long: "10 < length (Errorf_upstream st b)"
  by (simp add: Errorf_upstream_def)

subsection \<open>Which values the decoder takes\<close>

lemma literalStore_string_ok:
  "(\<exists>s. literalStore_string j cur = Inr s) = string_or_null j"
  by (cases j) auto

lemma object_ok:
  assumes "\<And>k j v. (\<exists>v'. setf k j v = Inr v') = (field names k = None \<or> ok j)"
  shows "(\<exists>v'. object setf ms v = Inr v') = list_all (\<lambda>(k, j). field names k = None \<or> ok j) ms"
proof (induction ms arbitrary: v)
  case Nil
  then show ?case by simp
next
  case (Cons m ms)
  obtain k j where m: "m = (k, j)" by (cases m)
  show ?case
  proof (cases "setf k j v")
    case (Inl e)
    then have "\<not> (field names k = None \<or> ok j)"
      using assms [of k j v] by simp
    with Inl m show ?thesis by simp
  next
    case (Inr v')
    then have "field names k = None \<or> ok j"
      using assms [of k j v] by auto
    with Inr m Cons.IH [of v'] show ?thesis by simp
  qed
qed

lemma value_struct_ok:
  assumes "\<And>k j v. (\<exists>v'. setf k j v = Inr v') = (field names k = None \<or> ok j)"
  shows "(\<exists>v'. value_struct setf j v = Inr v') = fits_struct names ok j"
  using object_ok [of setf names ok, OF assms]
  by (cases j) simp_all

lemma array_ok:
  assumes "\<And>j v. (\<exists>v'. store j v = Inr v') = ok j"
  shows "(\<exists>xs. array store zero es backing = Inr xs) = list_all ok es"
proof (induction es arbitrary: backing)
  case Nil
  then show ?case by simp
next
  case (Cons j es)
  let ?b = "case backing of [] \<Rightarrow> zero | b # _ \<Rightarrow> b"
  show ?case
  proof (cases "store j ?b")
    case (Inl e)
    then have "\<not> ok j" using assms [of j ?b] by simp
    with Inl show ?thesis by simp
  next
    case (Inr x)
    then have "ok j" using assms [of j ?b] by auto
    with Inr Cons.IH [of "tl backing"] show ?thesis
      by (cases "array store zero es (tl backing)") auto
  qed
qed

lemma set_TextRequest_ok:
  "(\<exists>v'. set_TextRequest k j req = Inr v') = (field [''text''] k = None \<or> string_or_null j)"
  using literalStore_string_ok [of j "TextRequest.Text req"]
  by (cases "literalStore_string j (TextRequest.Text req)")
     (auto simp add: set_TextRequest_def split: option.splits)

lemma set_RewriteRequest_ok:
  "(\<exists>v'. set_RewriteRequest k j req = Inr v')
     = (field [''text'', ''tone''] k = None \<or> string_or_null j)"
  using literalStore_string_ok [of j "RewriteRequest.Text req"]
    literalStore_string_ok [of j "Tone req"]
  by (cases "literalStore_string j (RewriteRequest.Text req)";
      cases "literalStore_string j (Tone req)")
     (auto simp add: set_RewriteRequest_def split: option.splits)

lemma set_ChatMessage_ok:
  "(\<exists>v'. set_ChatMessage k j m = Inr v')
     = (field [''role'', ''content''] k = None \<or> string_or_null j)"
  using literalStore_string_ok [of j "Role m"] literalStore_string_ok [of j "Content m"]
  by (cases "literalStore_string j (Role m)"; cases "literalStore_string j (Content m)")
     (auto simp add: set_ChatMessage_def split: option.splits)

lemma value_ChatMessage_ok:
  "(\<exists>v'. value_struct set_ChatMessage j m = Inr v') = fits_ChatMessage j"
  unfolding fits_ChatMessage_def
  by (rule value_struct_ok) (rule set_ChatMessage_ok)

lemma set_ChatChoice_ok:
  "(\<exists>v'. set_ChatChoice k j c = Inr v') = (field [''message''] k = None \<or> fits_ChatMessage j)"
  using value_ChatMessage_ok [of j "Message c"]
  by (cases "value_struct set_ChatMessage j (Message c)")
     (auto simp add: set_ChatChoice_def split: option.splits)

lemma value_ChatChoice_ok:
  "(\<exists>v'. value_struct set_ChatChoice j c = Inr v') = fits_ChatChoice j"
  unfolding fits_ChatChoice_def
  by (rule value_struct_ok) (rule set_ChatChoice_ok)

lemma set_ChatResponse_ok:
  "(\<exists>v'. set_ChatResponse k j st = Inr v') = (field [''choices''] k = None \<or> fits_choices j)"
proof (cases "field [''choices''] k")
  case None
  then show ?thesis by (simp add: set_ChatResponse_def)
next
  case (Some n)
  show ?thesis
  proof (cases j)
    case (JArray es)
    show ?thesis
    proof (cases "es = []")
      case True
      with Some JArray show ?thesis by (simp add: set_ChatResponse_def)
    next
      case False
      have "(\<exists>xs. array (value_struct set_ChatChoice) zero_ChatChoice es (snd st) = Inr xs)
              = list_all fits_ChatChoice es"
        by (rule array_ok) (rule value_ChatChoice_ok)
      with Some JArray False show ?thesis
        by (cases "array (value_struct set_ChatChoice) zero_ChatChoice es (snd st)")
           (auto simp add: set_ChatResponse_def)
    qed
  qed (use Some in \<open>simp_all add: set_ChatResponse_def\<close>)
qed

lemma decoded_ok:
  "(\<exists>req. decoded ep b = Inr req) = (\<exists>j. readValue b = Inr j \<and> fits_request ep j)"
proof (cases "readValue b")
  case (Inl e)
  then show ?thesis
    by (simp add: decoded_def Decode_TextRequest_def Decode_RewriteRequest_def)
next
  case (Inr j)
  have t: "(\<exists>v'. value_struct set_TextRequest j \<lparr>TextRequest.Text = []\<rparr> = Inr v')
             = fits_struct [''text''] string_or_null j"
    by (rule value_struct_ok) (rule set_TextRequest_ok)
  have w: "(\<exists>v'. value_struct set_RewriteRequest j \<lparr>RewriteRequest.Text = [], Tone = []\<rparr> = Inr v')
             = fits_struct [''text'', ''tone''] string_or_null j"
    by (rule value_struct_ok) (rule set_RewriteRequest_ok)
  show ?thesis
  proof (cases "ep = Rewrite")
    case True
    with Inr w show ?thesis
      by (simp add: decoded_def Decode_RewriteRequest_def fits_request_def request_fields_def)
  next
    case False
    with Inr t show ?thesis
      by (cases "value_struct set_TextRequest j \<lparr>TextRequest.Text = []\<rparr>")
         (auto simp add: decoded_def Decode_TextRequest_def fits_request_def request_fields_def)
  qed
qed

lemma Decode_ChatResponse_ok:
  "(\<exists>cr. Decode_ChatResponse b = Inr cr) = (\<exists>j. readValue b = Inr j \<and> fits_ChatResponse j)"
proof (cases "readValue b")
  case (Inl e)
  then show ?thesis by (simp add: Decode_ChatResponse_def)
next
  case (Inr j)
  have "(\<exists>v'. value_struct set_ChatResponse j (\<lparr>Choices = []\<rparr>, []) = Inr v')
          = fits_ChatResponse j"
    unfolding fits_ChatResponse_def
    by (rule value_struct_ok) (rule set_ChatResponse_ok)
  with Inr show ?thesis
    by (cases "value_struct set_ChatResponse j (\<lparr>Choices = []\<rparr>, [])")
       (auto simp add: Decode_ChatResponse_def)
qed

lemma decoded_fails:
  "(\<exists>e. decoded ep b = Inl e)
     = ((\<exists>e. readValue b = Inl e) \<or> (\<exists>j. readValue b = Inr j \<and> \<not> fits_request ep j))"
  using decoded_ok [of ep b]
  by (cases "decoded ep b"; cases "readValue b") auto

lemma Decode_ChatResponse_fails:
  "(\<exists>e. Decode_ChatResponse b = Inl e)
     = ((\<exists>e. readValue b = Inl e) \<or> (\<exists>j. readValue b = Inr j \<and> \<not> fits_ChatResponse j))"
  using Decode_ChatResponse_ok [of b]
  by (cases "Decode_ChatResponse b"; cases "readValue b") auto

text \<open>The definitions that evaluate the decoder on a concrete input.\<close>

lemmas json_eval =
  decoded_def Decode_TextRequest_def Decode_RewriteRequest_def Decode_ChatResponse_def
  Unmarshal_strings_def readValue_def checkValid_def isSpace_def isDigit_def
  pushParseState_def maxNestingDepth_def set_TextRequest_def set_RewriteRequest_def
  set_ChatMessage_def set_ChatChoice_def set_ChatResponse_def zero_ChatChoice_def field_def
  simple_escape_def hexval_def scan_number_def scan_int_def scan_frac_def scan_exp_def
  scan_digits1_def backslash_def

subsection \<open>Plain-text endpoints\<close>

text \<open>
  C9: for summarize, rewrite and expand, a request that decodes with a non-empty text and
  an outbound call that returns the reply \<open>s\<close> give the status 200 and a JSON document
  that holds \<open>s\<close> itself, under \<^verbatim>\<open>summary\<close> for summarize and under \<^verbatim>\<open>text\<close>
  for rewrite and expand.
\<close>

theorem plain_reply_wrapped:
  assumes "ep \<in> {Summarize, Rewrite, Expand}"
    and "decoded ep (Body r) = Inr req"
    and "RewriteRequest.Text req \<noteq> []"
    and "fst (callLLM do apiKey (prompt_for ep req)) = Inr s"
  shows "resp (handlerOf ep apiKey do r) =
           \<lparr>status = 200, content_type = ''application/json'',
            body = Document (JObject [(if ep = Summarize then ''summary'' else ''text'', JString s)])\<rparr>"
  using handler_after_reply [OF assms(2-4)] assms(1)
  by (auto simp add: writeJSON_def answer_def StatusOK_def)

theorem plain_reply_wrapped_witness:
  \<open>resp (summarizeHandler ''sk-test''
      (\<lambda>_. Inr \<lparr>StatusCode = 200,
                  resp_Body = ''{"choices":[{"message":{"role":"assistant","content":"- Sky is blue"}}]}''\<rparr>)
      \<lparr>Method = ''POST'', Path = ''/summarize'', Body = ''{"text":"The sky is blue."}''\<rparr>) =
    \<lparr>status = 200, content_type = ''application/json'',
     body = Document (JObject [(''summary'', JString ''- Sky is blue'')])\<rparr>\<close>
proof -
  let ?r = \<open>\<lparr>Method = ''POST'', Path = ''/summarize'', Body = ''{"text":"The sky is blue."}''\<rparr>\<close>
  let ?req = "\<lparr>RewriteRequest.Text = ''The sky is blue.'', Tone = []\<rparr>"
  let ?do = \<open>\<lambda>_::http_request. (Inr \<lparr>StatusCode = 200,
      resp_Body = ''{"choices":[{"message":{"role":"assistant","content":"- Sky is blue"}}]}''\<rparr>
      :: string + http_response)\<close>
  have d: "decoded Summarize (Body ?r) = Inr ?req"
    by (simp add: json_eval)
  have t: "RewriteRequest.Text ?req \<noteq> []"
    by simp
  have c: "fst (callLLM ?do ''sk-test'' (prompt_for Summarize ?req)) = Inr ''- Sky is blue''"
    by (simp add: callLLM_def json_eval)
  show ?thesis
    using plain_reply_wrapped [of Summarize ?r ?req ?do "''sk-test''" "''- Sky is blue''", OF _ d t c]
    by simp
qed

subsection \<open>Request validation and method enforcement\<close>

text \<open>
  C3, as amended: on each of the six endpoints, the handler answers with status 400 and
  sends nothing upstream (\<open>callLLM\<close> is not called) when decoding the body fails or the
  decoded \<^verbatim>\<open>text\<close> is empty or missing. Decoding reads the first JSON value of the body
  and nothing after it; it fails when that value is malformed, cut short or absent, and
  when it is neither \<^verbatim>\<open>null\<close> nor an object whose \<^verbatim>\<open>text\<close> member (for rewrite also
  its \<^verbatim>\<open>tone\<close> member) is a string or \<^verbatim>\<open>null\<close>. The same holds for the registered
  handler when the method is POST.
\<close>

theorem bad_request_no_call:
  assumes "(\<exists>e. readValue (Body r) = Inl e)
           \<or> (\<exists>j. readValue (Body r) = Inr j \<and> \<not> fits_request ep j)
           \<or> (\<exists>e. decoded ep (Body r) = Inl e)
           \<or> (\<exists>req. decoded ep (Body r) = Inr req \<and> RewriteRequest.Text req = [])"
  shows "status (resp (handlerOf ep apiKey do r)) = 400
         \<and> calls (handlerOf ep apiKey do r) = []
         \<and> (Method r = ''POST'' \<longrightarrow>
              status (resp (registered apiKey ep do r)) = 400
              \<and> calls (registered apiKey ep do r) = [])"
proof -
  from assms decoded_fails [of ep "Body r"]
  have "(\<exists>e. decoded ep (Body r) = Inl e)
        \<or> (\<exists>req. decoded ep (Body r) = Inr req \<and> RewriteRequest.Text req = [])"
    by blast
  then show ?thesis
    by (auto simp add: handlerOf_template registered_def withMethod_def http_Error_def
        StatusBadRequest_def)
qed

theorem bad_request_no_call_witness:
  \<open>status (resp (keywordsHandler ''sk-test'' (\<lambda>_. Inl ''unused'')
       \<lparr>Method = ''POST'', Path = ''/keywords'', Body = ''{"text":''\<rparr>)) = 400
    \<and> calls (keywordsHandler ''sk-test'' (\<lambda>_. Inl ''unused'')
       \<lparr>Method = ''POST'', Path = ''/keywords'', Body = ''{"text":''\<rparr>) = []
    \<and> status (resp (summarizeHandler ''sk-test'' (\<lambda>_. Inl ''unused'')
       \<lparr>Method = ''POST'', Path = ''/summarize'', Body = ''{"text":5}''\<rparr>)) = 400
    \<and> calls (summarizeHandler ''sk-test'' (\<lambda>_. Inl ''unused'')
       \<lparr>Method = ''POST'', Path = ''/summarize'', Body = ''{"text":5}''\<rparr>) = []
    \<and> status (resp (rewriteHandler ''sk-test'' (\<lambda>_. Inl ''unused'')
       \<lparr>Method = ''POST'', Path = ''/rewrite'', Body = ''{"tone":"formal"}''\<rparr>)) = 400
    \<and> calls (rewriteHandler ''sk-test'' (\<lambda>_. Inl ''unused'')
       \<lparr>Method = ''POST'', Path = ''/rewrite'', Body = ''{"tone":"formal"}''\<rparr>) = []
    \<and> status (resp (expandHandler ''sk-test'' (\<lambda>_. Inl ''unused'')
       \<lparr>Method = ''POST'', Path = ''/expand'', Body = ''{"text":""}''\<rparr>)) = 400
    \<and> calls (expandHandler ''sk-test'' (\<lambda>_. Inl ''unused'')
       \<lparr>Method = ''POST'', Path = ''/expand'', Body = ''{"text":""}''\<rparr>) = []\<close>
proof -
  let ?do = "\<lambda>_::http_request. (Inl ''unused'' :: string + http_response)"
  have a: \<open>\<exists>e. readValue (Body \<lparr>Method = ''POST'', Path = ''/keywords'', Body = ''{"text":''\<rparr>) = Inl e\<close>
    by (simp add: json_eval)
  have b: \<open>\<exists>j. readValue (Body \<lparr>Method = ''POST'', Path = ''/summarize'', Body = ''{"text":5}''\<rparr>) = Inr j
             \<and> \<not> fits_request Summarize j\<close>
    by (simp add: json_eval fits_request_def request_fields_def)
  have c: \<open>\<exists>req. decoded Rewrite (Body \<lparr>Method = ''POST'', Path = ''/rewrite'', Body = ''{"tone":"formal"}''\<rparr>) = Inr req
             \<and> RewriteRequest.Text req = []\<close>
    by (simp add: json_eval)
  have d: \<open>\<exists>req. decoded Expand (Body \<lparr>Method = ''POST'', Path = ''/expand'', Body = ''{"text":""}''\<rparr>) = Inr req
             \<and> RewriteRequest.Text req = []\<close>
    by (simp add: json_eval)
  show ?thesis
    using bad_request_no_call [of _ Keywords "''sk-test''" ?do, OF disjI1, OF a]
      bad_request_no_call [of _ Summarize "''sk-test''" ?do, OF disjI2, OF disjI1, OF b]
      bad_request_no_call [of _ Rewrite "''sk-test''" ?do, OF disjI2, OF disjI2, OF disjI2, OF c]
      bad_request_no_call [of _ Expand "''sk-test''" ?do, OF disjI2, OF disjI2, OF disjI2, OF d]
    by simp
qed

text \<open>
  C3 as it is stated fails at a body that is malformed JSON only after its first value:
  \<^verbatim>\<open>{"text":"a"}]\<close> is not a JSON text, yet the decoder stops after the object, the
  request counts as valid, one request is sent upstream and the answer has status 200.
\<close>

theorem bad_request_counterexample:
  \<open>checkValid ''{"text":"a"}]'' = Inl SyntaxError
   \<and> status (resp (registered ''sk-test'' Summarize
        (\<lambda>_. Inr \<lparr>StatusCode = 200, resp_Body = ''{"choices":[{"message":{"content":"ok"}}]}''\<rparr>)
        \<lparr>Method = ''POST'', Path = ''/summarize'', Body = ''{"text":"a"}]''\<rparr>)) = 200
   \<and> length (calls (registered ''sk-test'' Summarize
        (\<lambda>_. Inr \<lparr>StatusCode = 200, resp_Body = ''{"choices":[{"message":{"content":"ok"}}]}''\<rparr>)
        \<lparr>Method = ''POST'', Path = ''/summarize'', Body = ''{"text":"a"}]''\<rparr>)) = 1\<close>
proof -
  let ?r = \<open>\<lparr>Method = ''POST'', Path = ''/summarize'', Body = ''{"text":"a"}]''\<rparr>\<close>
  let ?req = "\<lparr>RewriteRequest.Text = ''a'', Tone = []\<rparr>"
  let ?do = \<open>\<lambda>_::http_request. (Inr \<lparr>StatusCode = 200,
      resp_Body = ''{"choices":[{"message":{"content":"ok"}}]}''\<rparr> :: string + http_response)\<close>
  have v: \<open>checkValid ''{"text":"a"}]'' = Inl SyntaxError\<close>
    by (simp add: json_eval)
  have d: "decoded Summarize (Body ?r) = Inr ?req"
    by (simp add: json_eval)
  have t: "RewriteRequest.Text ?req \<noteq> []"
    by simp
  obtain res sent where c: "callLLM ?do ''sk-test'' (prompt_for Summarize ?req) = (res, sent)"
    by (cases "callLLM ?do ''sk-test'' (prompt_for Summarize ?req)")
  have res: "res = Inr ''ok''"
    using c [symmetric] by (simp add: callLLM_def json_eval)
  have sent: "length sent = 1"
    using c callLLM_sent [of ?do "''sk-test''" "prompt_for Summarize ?req"] by simp
  from handlerOf_template [of Summarize "''sk-test''" ?do ?r] d c res
  have "summarizeHandler ''sk-test'' ?do ?r =
          \<lparr>resp = writeJSON StatusOK (answer Summarize ''ok''), calls = sent, logged = []\<rparr>"
    by simp
  with sent have "status (resp (registered ''sk-test'' Summarize ?do ?r)) = 200
             \<and> length (calls (registered ''sk-test'' Summarize ?do ?r)) = 1"
    by (simp add: registered_def withMethod_def writeJSON_def StatusOK_def)
  with v show ?thesis
    by simp
qed

text \<open>
  C5, as amended: on each of the six endpoints that take a text (summarize, keywords,
  rewrite, questions, titles, expand), the handler that \<open>main\<close> registers answers every
  request whose method is not POST with status 405 and the text
  \<^verbatim>\<open>method not allowed\<close>, whatever the body is; nothing is sent upstream.
\<close>

theorem non_post_rejected:
  assumes "Method r \<noteq> ''POST''"
  shows "map_of (routes apiKey) (pattern ep) = Some (registered apiKey ep)
         \<and> resp (registered apiKey ep do r) =
             \<lparr>status = 405, content_type = ''text/plain; charset=utf-8'',
              body = Plain (''method not allowed'' @ [CHR 0x0A])\<rparr>
         \<and> calls (registered apiKey ep do r) = []"
proof -
  have "map_of (routes apiKey) (pattern ep) = Some (registered apiKey ep)"
    by (cases ep) (simp_all add: routes_def registered_def)
  with assms show ?thesis
    by (simp add: registered_def withMethod_def http_Error_def StatusMethodNotAllowed_def)
qed

theorem non_post_rejected_witness:
  \<open>status (resp (registered ''sk-test'' Summarize (\<lambda>_. Inl ''unused'')
       \<lparr>Method = ''GET'', Path = ''/summarize'', Body = ''{"text":"The sky is blue."}''\<rparr>)) = 405
    \<and> status (resp (registered ''sk-test'' Titles (\<lambda>_. Inl ''unused'')
       \<lparr>Method = ''post'', Path = ''/titles'', Body = []\<rparr>)) = 405\<close>
proof -
  have a: "''GET'' \<noteq> ''POST''" and b: "''post'' \<noteq> ''POST''"
    by simp_all
  show ?thesis
    using non_post_rejected [of
        \<open>\<lparr>Method = ''GET'', Path = ''/summarize'', Body = ''{"text":"The sky is blue."}''\<rparr>\<close>
        "''sk-test''" Summarize "\<lambda>_. Inl ''unused''"]
      non_post_rejected [of "\<lparr>Method = ''post'', Path = ''/titles'', Body = []\<rparr>"
        "''sk-test''" Titles "\<lambda>_. Inl ''unused''"] a b
    by simp
qed

text \<open>
  C5 as it is stated, for all endpoints, fails at the health endpoint: \<open>main\<close> registers
  \<^verbatim>\<open>/health\<close> without the method wrapper, and a GET request there is answered with
  status 200 and the document \<^verbatim>\<open>{"status":"ok"}\<close>.
\<close>

theorem non_post_health_counterexample:
  \<open>''GET'' \<noteq> ''POST''
   \<and> (case map_of (routes ''sk-test'') ''/health'' of
        None \<Rightarrow> False
      | Some h \<Rightarrow>
          resp (h (\<lambda>_. Inl ''unused'') \<lparr>Method = ''GET'', Path = ''/health'', Body = []\<rparr>) =
            \<lparr>status = 200, content_type = ''application/json'',
             body = Document (JObject [(''status'', JString ''ok'')])\<rparr>)\<close>
  by (simp add: routes_def healthHandler_def writeJSON_def StatusOK_def)

subsection \<open>Upstream failures\<close>

text \<open>
  C6: on each of the six endpoints, when the request decodes with a non-empty text and
  \<open>callLLM\<close> fails with any error, the response is status 500 with the fixed text
  \<^verbatim>\<open>LLM error\<close>; the error goes to the log only. Any two outbound clients that both
  make the call fail give the same response, and the texts main.go formats for its own
  errors (with the upstream status and body, or for an empty choice list) do not occur in
  the response body.
\<close>

theorem llm_failure_opaque:
  assumes "decoded ep (Body r) = Inr req"
    and "RewriteRequest.Text req \<noteq> []"
    and "fst (callLLM do apiKey (prompt_for ep req)) = Inl err"
  shows "resp (handlerOf ep apiKey do r) =
           \<lparr>status = 500, content_type = ''text/plain; charset=utf-8'',
            body = Plain (''LLM error'' @ [CHR 0x0A])\<rparr>
         \<and> logged (handlerOf ep apiKey do r) = [(log_prefix ep, err)]
         \<and> (\<forall>do' err'. fst (callLLM do' apiKey (prompt_for ep req)) = Inl err' \<longrightarrow>
               resp (handlerOf ep apiKey do' r) = resp (handlerOf ep apiKey do r))
         \<and> (\<forall>st b. \<not> sublist (Errorf_upstream st b) (''LLM error'' @ [CHR 0x0A]))
         \<and> \<not> sublist Errorf_no_choices (''LLM error'' @ [CHR 0x0A])"
proof -
  have fail: "resp (handlerOf ep apiKey d r) = http_Error ''LLM error'' StatusInternalServerError
              \<and> logged (handlerOf ep apiKey d r) = [(log_prefix ep, e)]"
    if h: "fst (callLLM d apiKey (prompt_for ep req)) = Inl e" for d e
  proof -
    obtain sent where "callLLM d apiKey (prompt_for ep req) = (Inl e, sent)"
      using h by (cases "callLLM d apiKey (prompt_for ep req)") simp
    with assms(1,2) show ?thesis
      by (simp add: handlerOf_template)
  qed
  have up: "\<not> sublist (Errorf_upstream st b) (''LLM error'' @ [CHR 0x0A])" for st b
    using sublist_length_le [of "Errorf_upstream st b" "''LLM error'' @ [CHR 0x0A]"]
      upstream_text_long [of st b]
    by auto
  have nc: "\<not> sublist Errorf_no_choices (''LLM error'' @ [CHR 0x0A])"
    using sublist_length_le [of Errorf_no_choices "''LLM error'' @ [CHR 0x0A]"]
    by (auto simp: Errorf_no_choices_def)
  from fail [OF assms(3)] fail up nc show ?thesis
    by (simp add: http_Error_def StatusInternalServerError_def)
qed

theorem llm_failure_opaque_witness:
  \<open>resp (questionsHandler ''sk-test'' (\<lambda>_. Inr \<lparr>StatusCode = 503, resp_Body = ''overloaded''\<rparr>)
      \<lparr>Method = ''POST'', Path = ''/questions'', Body = ''{"text":"The sky is blue."}''\<rparr>) =
     \<lparr>status = 500, content_type = ''text/plain; charset=utf-8'',
      body = Plain (''LLM error'' @ [CHR 0x0A])\<rparr>
   \<and> resp (questionsHandler ''sk-test'' (\<lambda>_. Inr \<lparr>StatusCode = 401, resp_Body = ''bad key''\<rparr>)
      \<lparr>Method = ''POST'', Path = ''/questions'', Body = ''{"text":"The sky is blue."}''\<rparr>) =
     resp (questionsHandler ''sk-test'' (\<lambda>_. Inr \<lparr>StatusCode = 503, resp_Body = ''overloaded''\<rparr>)
      \<lparr>Method = ''POST'', Path = ''/questions'', Body = ''{"text":"The sky is blue."}''\<rparr>)
   \<and> logged (questionsHandler ''sk-test'' (\<lambda>_. Inr \<lparr>StatusCode = 503, resp_Body = ''overloaded''\<rparr>)
      \<lparr>Method = ''POST'', Path = ''/questions'', Body = ''{"text":"The sky is blue."}''\<rparr>) =
     [(''questions error:'', UpstreamError 503 ''overloaded'')]\<close>
proof -
  let ?r = \<open>\<lparr>Method = ''POST'', Path = ''/questions'', Body = ''{"text":"The sky is blue."}''\<rparr>\<close>
  let ?req = "\<lparr>RewriteRequest.Text = ''The sky is blue.'', Tone = []\<rparr>"
  let ?do = "\<lambda>_::http_request.
    (Inr \<lparr>StatusCode = 503, resp_Body = ''overloaded''\<rparr> :: string + http_response)"
  let ?do' = "\<lambda>_::http_request.
    (Inr \<lparr>StatusCode = 401, resp_Body = ''bad key''\<rparr> :: string + http_response)"
  have d: "decoded Questions (Body ?r) = Inr ?req"
    by (simp add: json_eval)
  have t: "RewriteRequest.Text ?req \<noteq> []"
    by simp
  have c: "fst (callLLM ?do ''sk-test'' (prompt_for Questions ?req))
             = Inl (UpstreamError 503 ''overloaded'')"
    by (simp add: callLLM_def)
  have c': "fst (callLLM ?do' ''sk-test'' (prompt_for Questions ?req))
             = Inl (UpstreamError 401 ''bad key'')"
    by (simp add: callLLM_def)
  from llm_failure_opaque [OF d t c] c' show ?thesis
    by simp
qed

subsection \<open>The request sent upstream\<close>

text \<open>
  C8: on each endpoint, a request that decodes with a non-empty text makes the handler
  send one chat request with exactly two messages, in this order: the system message
  \<^verbatim>\<open>You are a helpful text-processing assistant.\<close> and a user message whose content is
  the endpoint's prompt template with the text (and for rewrite the tone, \<^verbatim>\<open>neutral\<close>
  when none is given) put in. For summarize the user message is
  \<^verbatim>\<open>Summarize the following text in 3-5 bullet points. Be concise and clear.\<close> (with an
  en dash between 3 and 5), two newlines, and the text.
\<close>

theorem chat_request_shape:
  assumes "decoded ep (Body r) = Inr req"
    and "RewriteRequest.Text req \<noteq> []"
  shows "map (Messages \<circ> req_body) (calls (handlerOf ep apiKey do r)) =
           [[\<lparr>Role = ''system'', Content = ''You are a helpful text-processing assistant.''\<rparr>,
             \<lparr>Role = ''user'',
              Content = template ep (default_tone (Tone req)) (RewriteRequest.Text req)\<rparr>]]
         \<and> (ep = Summarize \<longrightarrow>
              map (map Content \<circ> Messages \<circ> req_body) (calls (handlerOf ep apiKey do r)) =
                [[''You are a helpful text-processing assistant.'',
                  ''Summarize the following text in 3'' @ [CHR 0xE2, CHR 0x80, CHR 0x93]
                    @ ''5 bullet points. Be concise and clear.'' @ [CHR 0x0A, CHR 0x0A]
                    @ RewriteRequest.Text req]])"
proof -
  have "calls (handlerOf ep apiKey do r) = snd (callLLM do apiKey (prompt_for ep req))"
    using assms
    by (cases "callLLM do apiKey (prompt_for ep req)")
       (auto simp add: handlerOf_template split: sum.splits)
  then show ?thesis
    by (auto simp add: callLLM_sent prompt_for_def)
qed

theorem chat_request_shape_witness:
  \<open>map (map Content \<circ> Messages \<circ> req_body)
     (calls (summarizeHandler ''sk-test'' (\<lambda>_. Inl ''connection refused'')
        \<lparr>Method = ''POST'', Path = ''/summarize'', Body = ''{"text":"The sky is blue."}''\<rparr>)) =
   [[''You are a helpful text-processing assistant.'',
     ''Summarize the following text in 3'' @ [CHR 0xE2, CHR 0x80, CHR 0x93]
       @ ''5 bullet points. Be concise and clear.'' @ [CHR 0x0A, CHR 0x0A]
       @ ''The sky is blue.'']]\<close>
proof -
  let ?r = \<open>\<lparr>Method = ''POST'', Path = ''/summarize'', Body = ''{"text":"The sky is blue."}''\<rparr>\<close>
  let ?req = "\<lparr>RewriteRequest.Text = ''The sky is blue.'', Tone = []\<rparr>"
  have d: "decoded Summarize (Body ?r) = Inr ?req"
    by (simp add: json_eval)
  have t: "RewriteRequest.Text ?req \<noteq> []"
    by simp
  from chat_request_shape [OF d t, of "''sk-test''" "\<lambda>_. Inl ''connection refused''"]
  show ?thesis
    by simp
qed

subsection \<open>The default tone\<close>

text \<open>
  C7: two bodies for /rewrite that decode to the same text, one with no tone (absent or
  empty) and one with the tone \<^verbatim>\<open>neutral\<close>, are served alike: for every outbound
  client and every method the handler and the registered handler give the same response,
  send the same request upstream and log the same.
\<close>

theorem rewrite_default_tone:
  assumes "decoded Rewrite b1 = Inr \<lparr>RewriteRequest.Text = t, Tone = []\<rparr>"
    and "decoded Rewrite b2 = Inr \<lparr>RewriteRequest.Text = t, Tone = ''neutral''\<rparr>"
  shows "rewriteHandler apiKey do \<lparr>Method = m, Path = p, Body = b1\<rparr>
           = rewriteHandler apiKey do \<lparr>Method = m, Path = p, Body = b2\<rparr>
         \<and> registered apiKey Rewrite do \<lparr>Method = m, Path = p, Body = b1\<rparr>
           = registered apiKey Rewrite do \<lparr>Method = m, Path = p, Body = b2\<rparr>"
proof -
  have "rewriteHandler apiKey do \<lparr>Method = m, Path = p, Body = b1\<rparr>
          = rewriteHandler apiKey do \<lparr>Method = m, Path = p, Body = b2\<rparr>"
    using assms
      handlerOf_template [of Rewrite apiKey do "\<lparr>Method = m, Path = p, Body = b1\<rparr>"]
      handlerOf_template [of Rewrite apiKey do "\<lparr>Method = m, Path = p, Body = b2\<rparr>"]
    by (simp add: prompt_for_def default_tone_def)
  then show ?thesis
    by (auto simp add: registered_def withMethod_def)
qed

theorem rewrite_default_tone_witness:
  \<open>rewriteHandler ''sk-test''
      (\<lambda>_. Inr \<lparr>StatusCode = 200, resp_Body = ''{"choices":[{"message":{"content":"Hello."}}]}''\<rparr>)
      \<lparr>Method = ''POST'', Path = ''/rewrite'', Body = ''{"text":"hi"}''\<rparr>
    = rewriteHandler ''sk-test''
      (\<lambda>_. Inr \<lparr>StatusCode = 200, resp_Body = ''{"choices":[{"message":{"content":"Hello."}}]}''\<rparr>)
      \<lparr>Method = ''POST'', Path = ''/rewrite'', Body = ''{"text":"hi","tone":"neutral"}''\<rparr>
   \<and> rewriteHandler ''sk-test''
      (\<lambda>_. Inr \<lparr>StatusCode = 200, resp_Body = ''{"choices":[{"message":{"content":"Hello."}}]}''\<rparr>)
      \<lparr>Method = ''POST'', Path = ''/rewrite'', Body = ''{"tone":"","text":"hi"}''\<rparr>
    = rewriteHandler ''sk-test''
      (\<lambda>_. Inr \<lparr>StatusCode = 200, resp_Body = ''{"choices":[{"message":{"content":"Hello."}}]}''\<rparr>)
      \<lparr>Method = ''POST'', Path = ''/rewrite'', Body = ''{"text":"hi","tone":"neutral"}''\<rparr>\<close>
proof -
  have a: \<open>decoded Rewrite ''{"text":"hi"}'' = Inr \<lparr>RewriteRequest.Text = ''hi'', Tone = []\<rparr>\<close>
    by (simp add: json_eval)
  have a': \<open>decoded Rewrite ''{"tone":"","text":"hi"}''
              = Inr \<lparr>RewriteRequest.Text = ''hi'', Tone = []\<rparr>\<close>
    by (simp add: json_eval)
  have b: \<open>decoded Rewrite ''{"text":"hi","tone":"neutral"}''
             = Inr \<lparr>RewriteRequest.Text = ''hi'', Tone = ''neutral''\<rparr>\<close>
    by (simp add: json_eval)
  from rewrite_default_tone [OF a b] rewrite_default_tone [OF a' b] show ?thesis
    by simp
qed

subsection \<open>The outbound call\<close>

text \<open>
  C4, as amended: when the client hands back a response, \<open>callLLM\<close> fails with an
  \<open>UpstreamError\<close> carrying the status and the body exactly when the status is 400 or
  more. Below 400 (every 2xx and 3xx status is, and so is any status below 200 that the
  client hands back) it fails with a \<open>DecodeError\<close> exactly when decoding the body fails,
  fails with \<open>EmptyResponseError\<close> when the decoded choice list is empty, and otherwise
  returns the content of the first choice's message. Decoding reads the first JSON value
  of the body and nothing after it; it fails when that value is malformed, cut short or
  absent, and when it does not fit a \<open>ChatResponse\<close>: it fits when it is \<^verbatim>\<open>null\<close> or an
  object whose \<^verbatim>\<open>choices\<close> is \<^verbatim>\<open>null\<close> or an array, each element \<^verbatim>\<open>null\<close> or an
  object whose \<^verbatim>\<open>message\<close> is \<^verbatim>\<open>null\<close> or an object whose \<^verbatim>\<open>role\<close> and
  \<^verbatim>\<open>content\<close> are strings or \<^verbatim>\<open>null\<close>.
\<close>

theorem callLLM_outcomes:
  assumes "req \<in> set (snd (callLLM do apiKey prompt))"
    and "do req = Inr r"
  shows "(400 \<le> StatusCode r \<longrightarrow>
            fst (callLLM do apiKey prompt) = Inl (UpstreamError (StatusCode r) (resp_Body r)))
         \<and> ((\<exists>st b. fst (callLLM do apiKey prompt) = Inl (UpstreamError st b)) \<longrightarrow>
              400 \<le> StatusCode r)
         \<and> (StatusCode r < 400 \<longrightarrow>
              (\<forall>e. Decode_ChatResponse (resp_Body r) = Inl e \<longrightarrow>
                 fst (callLLM do apiKey prompt) = Inl (DecodeError e))
              \<and> (\<forall>cr. Decode_ChatResponse (resp_Body r) = Inr cr \<and> Choices cr = [] \<longrightarrow>
                 fst (callLLM do apiKey prompt) = Inl EmptyResponseError)
              \<and> (\<forall>cr c cs. Decode_ChatResponse (resp_Body r) = Inr cr \<and> Choices cr = c # cs \<longrightarrow>
                 fst (callLLM do apiKey prompt) = Inr (Content (Message c))))
         \<and> (is_2xx_3xx (StatusCode r) \<longrightarrow> StatusCode r < 400)
         \<and> ((\<exists>e. fst (callLLM do apiKey prompt) = Inl (DecodeError e)) \<longleftrightarrow>
              StatusCode r < 400
              \<and> ((\<exists>e. readValue (resp_Body r) = Inl e)
                  \<or> (\<exists>j. readValue (resp_Body r) = Inr j \<and> \<not> fits_ChatResponse j)))"
proof -
  from assms(1) have "req = hd (snd (callLLM do apiKey prompt))"
    by (simp add: callLLM_sent)
  with assms(2) have res: "fst (callLLM do apiKey prompt) =
      (if 400 \<le> StatusCode r then Inl (UpstreamError (StatusCode r) (resp_Body r))
       else case Decode_ChatResponse (resp_Body r) of
              Inl e \<Rightarrow> Inl (DecodeError e)
            | Inr cr \<Rightarrow> (case Choices cr of [] \<Rightarrow> Inl EmptyResponseError
                         | c # _ \<Rightarrow> Inr (Content (Message c))))"
    by (simp add: callLLM_def Let_def callLLM_sent)
  have old: "(400 \<le> StatusCode r \<longrightarrow>
            fst (callLLM do apiKey prompt) = Inl (UpstreamError (StatusCode r) (resp_Body r)))
         \<and> ((\<exists>st b. fst (callLLM do apiKey prompt) = Inl (UpstreamError st b)) \<longrightarrow>
              400 \<le> StatusCode r)
         \<and> (StatusCode r < 400 \<longrightarrow>
              (\<forall>e. Decode_ChatResponse (resp_Body r) = Inl e \<longrightarrow>
                 fst (callLLM do apiKey prompt) = Inl (DecodeError e))
              \<and> (\<forall>cr. Decode_ChatResponse (resp_Body r) = Inr cr \<and> Choices cr = [] \<longrightarrow>
                 fst (callLLM do apiKey prompt) = Inl EmptyResponseError)
              \<and> (\<forall>cr c cs. Decode_ChatResponse (resp_Body r) = Inr cr \<and> Choices cr = c # cs \<longrightarrow>
                 fst (callLLM do apiKey prompt) = Inr (Content (Message c))))
         \<and> (is_2xx_3xx (StatusCode r) \<longrightarrow> StatusCode r < 400)"
    using res by (auto simp add: is_2xx_3xx_def split: sum.splits list.splits)
  have "(\<exists>e. fst (callLLM do apiKey prompt) = Inl (DecodeError e))
          = (StatusCode r < 400 \<and> (\<exists>e. Decode_ChatResponse (resp_Body r) = Inl e))"
    using res by (auto split: sum.splits list.splits)
  with Decode_ChatResponse_fails [of "resp_Body r"]
  have new: "(\<exists>e. fst (callLLM do apiKey prompt) = Inl (DecodeError e)) \<longleftrightarrow>
              StatusCode r < 400
              \<and> ((\<exists>e. readValue (resp_Body r) = Inl e)
                  \<or> (\<exists>j. readValue (resp_Body r) = Inr j \<and> \<not> fits_ChatResponse j))"
    by simp
  from old new show ?thesis
    by blast
qed

theorem callLLM_outcomes_witness:
  \<open>fst (callLLM (\<lambda>_. Inr \<lparr>StatusCode = 429, resp_Body = ''{"error":"rate limit"}''\<rparr>)
          ''sk-test'' ''p'') = Inl (UpstreamError 429 ''{"error":"rate limit"}'')
   \<and> fst (callLLM (\<lambda>_. Inr \<lparr>StatusCode = 200, resp_Body = ''<html>''\<rparr>)
          ''sk-test'' ''p'') = Inl (DecodeError SyntaxError)
   \<and> fst (callLLM (\<lambda>_. Inr \<lparr>StatusCode = 200, resp_Body = ''{"choices":[]}''\<rparr>)
          ''sk-test'' ''p'') = Inl EmptyResponseError
   \<and> fst (callLLM (\<lambda>_. Inr \<lparr>StatusCode = 200,
            resp_Body = ''{"choices":[{"message":{"content":"one"}},{"message":{"content":"two"}}]}''\<rparr>)
          ''sk-test'' ''p'') = Inr ''one''
   \<and> (\<exists>e. fst (callLLM (\<lambda>_. Inr \<lparr>StatusCode = 200, resp_Body = ''{"choices":[{"message":7}]}''\<rparr>)
          ''sk-test'' ''p'') = Inl (DecodeError e))\<close>
proof -
  let ?req = "hd (snd (callLLM (\<lambda>_. Inl []) ''sk-test'' ''p''))"
  have s: "?req \<in> set (snd (callLLM d ''sk-test'' ''p''))" for d
    by (simp add: callLLM_sent)
  have b2: \<open>Decode_ChatResponse ''<html>'' = Inl SyntaxError\<close>
    by (simp add: json_eval)
  have b3: \<open>Decode_ChatResponse ''{"choices":[]}'' = Inr \<lparr>Choices = []\<rparr>\<close>
    by (simp add: json_eval)
  have b4: \<open>Decode_ChatResponse
      ''{"choices":[{"message":{"content":"one"}},{"message":{"content":"two"}}]}''
      = Inr \<lparr>Choices = [\<lparr>Message = \<lparr>Role = [], Content = ''one''\<rparr>\<rparr>,
                          \<lparr>Message = \<lparr>Role = [], Content = ''two''\<rparr>\<rparr>]\<rparr>\<close>
    by (simp add: json_eval)
  have b5: \<open>\<exists>j. readValue ''{"choices":[{"message":7}]}'' = Inr j \<and> \<not> fits_ChatResponse j\<close>
    by (simp add: json_eval fits_ChatResponse_def fits_ChatChoice_def fits_ChatMessage_def)
  from callLLM_outcomes [OF s, of
      \<open>\<lambda>_. Inr \<lparr>StatusCode = 429, resp_Body = ''{"error":"rate limit"}''\<rparr>\<close>
      \<open>\<lparr>StatusCode = 429, resp_Body = ''{"error":"rate limit"}''\<rparr>\<close>]
    callLLM_outcomes [OF s, of
      \<open>\<lambda>_. Inr \<lparr>StatusCode = 200, resp_Body = ''<html>''\<rparr>\<close>
      \<open>\<lparr>StatusCode = 200, resp_Body = ''<html>''\<rparr>\<close>]
    callLLM_outcomes [OF s, of
      \<open>\<lambda>_. Inr \<lparr>StatusCode = 200, resp_Body = ''{"choices":[]}''\<rparr>\<close>
      \<open>\<lparr>StatusCode = 200, resp_Body = ''{"choices":[]}''\<rparr>\<close>]
    callLLM_outcomes [OF s, of
      \<open>\<lambda>_. Inr \<lparr>StatusCode = 200,
            resp_Body = ''{"choices":[{"message":{"content":"one"}},{"message":{"content":"two"}}]}''\<rparr>\<close>
      \<open>\<lparr>StatusCode = 200,
            resp_Body = ''{"choices":[{"message":{"content":"one"}},{"message":{"content":"two"}}]}''\<rparr>\<close>]
    b2 b3 b4
  have first: \<open>fst (callLLM (\<lambda>_. Inr \<lparr>StatusCode = 429, resp_Body = ''{"error":"rate limit"}''\<rparr>)
          ''sk-test'' ''p'') = Inl (UpstreamError 429 ''{"error":"rate limit"}'')
   \<and> fst (callLLM (\<lambda>_. Inr \<lparr>StatusCode = 200, resp_Body = ''<html>''\<rparr>)
          ''sk-test'' ''p'') = Inl (DecodeError SyntaxError)
   \<and> fst (callLLM (\<lambda>_. Inr \<lparr>StatusCode = 200, resp_Body = ''{"choices":[]}''\<rparr>)
          ''sk-test'' ''p'') = Inl EmptyResponseError
   \<and> fst (callLLM (\<lambda>_. Inr \<lparr>StatusCode = 200,
            resp_Body = ''{"choices":[{"message":{"content":"one"}},{"message":{"content":"two"}}]}''\<rparr>)
          ''sk-test'' ''p'') = Inr ''one''\<close>
    by simp
  from callLLM_outcomes [OF s, of
      \<open>\<lambda>_. Inr \<lparr>StatusCode = 200, resp_Body = ''{"choices":[{"message":7}]}''\<rparr>\<close>
      \<open>\<lparr>StatusCode = 200, resp_Body = ''{"choices":[{"message":7}]}''\<rparr>\<close>] b5
  have \<open>\<exists>e. fst (callLLM (\<lambda>_. Inr \<lparr>StatusCode = 200, resp_Body = ''{"choices":[{"message":7}]}''\<rparr>)
          ''sk-test'' ''p'') = Inl (DecodeError e)\<close>
    by simp
  with first show ?thesis
    by simp
qed

text \<open>
  C4 as it is stated fails at the status 101: it is neither 2xx nor 3xx, yet \<open>callLLM\<close>
  does not fail with an \<open>UpstreamError\<close> but decodes the body and returns the content. It
  also fails at a body that is malformed JSON only after its first value: with status 200
  and one closing brace too many there is no \<open>DecodeError\<close>, the content is returned. And
  a \<^verbatim>\<open>null\<close> in place of a choice is decoded as a choice with empty content.
\<close>

theorem callLLM_status_counterexample:
  \<open>\<not> is_2xx_3xx 101
   \<and> fst (callLLM
        (\<lambda>_. Inr \<lparr>StatusCode = 101, resp_Body = ''{"choices":[{"message":{"content":"hi"}}]}''\<rparr>)
        ''sk-test'' ''p'') = Inr ''hi''
   \<and> checkValid ''{"choices":[{"message":{"content":"hi"}}]}}'' = Inl SyntaxError
   \<and> fst (callLLM
        (\<lambda>_. Inr \<lparr>StatusCode = 200, resp_Body = ''{"choices":[{"message":{"content":"hi"}}]}}''\<rparr>)
        ''sk-test'' ''p'') = Inr ''hi''
   \<and> fst (callLLM
        (\<lambda>_. Inr \<lparr>StatusCode = 200, resp_Body = ''{"choices":[null]}''\<rparr>)
        ''sk-test'' ''p'') = Inr []\<close>
  by (simp add: is_2xx_3xx_def callLLM_def json_eval)

lemmas reply_eval = as_string_array_def as_lenient_array_def is_null_def

subsection \<open>List-shaped endpoints\<close>

text \<open>
  C1: for keywords, questions and titles, when the request decodes with a non-empty text
  and \<open>callLLM\<close> returns a reply that is a valid JSON array of strings, the response has
  status 200 and its list field is exactly that array, element by element in order.
\<close>

theorem list_reply_parsed:
  assumes "ep \<in> {Keywords, Questions, Titles}"
    and "decoded ep (Body r) = Inr req"
    and "RewriteRequest.Text req \<noteq> []"
    and "fst (callLLM do apiKey (prompt_for ep req)) = Inr out"
    and "as_string_array out = Some xs"
  shows "resp (handlerOf ep apiKey do r) =
           \<lparr>status = 200, content_type = ''application/json'',
            body = Document (JObject
              [(if ep = Keywords then ''keywords'' else if ep = Questions then ''questions''
                else ''titles'',
                JArray (map JString xs))])\<rparr>"
  using handler_after_reply [OF assms(2-4)] assms(1) Unmarshal_strings_array [OF assms(5)]
  by (auto simp add: writeJSON_def answer_def StatusOK_def encode_strings_def)

theorem list_reply_parsed_witness:
  \<open>resp (keywordsHandler ''sk-test''
      (\<lambda>_. Inr \<lparr>StatusCode = 200,
                  resp_Body = ''{"choices":[{"message":{"content":"['' @ backslash # ''"a''
                    @ backslash # ''",'' @ backslash # ''"b'' @ backslash # ''",''
                    @ backslash # ''"c'' @ backslash # ''"]"}}]}''\<rparr>)
      \<lparr>Method = ''POST'', Path = ''/keywords'', Body = ''{"text":"The sky is blue."}''\<rparr>) =
    \<lparr>status = 200, content_type = ''application/json'',
     body = Document (JObject [(''keywords'', JArray [JString ''a'', JString ''b'', JString ''c''])])\<rparr>\<close>
proof -
  let ?r = \<open>\<lparr>Method = ''POST'', Path = ''/keywords'', Body = ''{"text":"The sky is blue."}''\<rparr>\<close>
  let ?req = "\<lparr>RewriteRequest.Text = ''The sky is blue.'', Tone = []\<rparr>"
  let ?do = \<open>\<lambda>_::http_request. (Inr \<lparr>StatusCode = 200,
      resp_Body = ''{"choices":[{"message":{"content":"['' @ backslash # ''"a''
                    @ backslash # ''",'' @ backslash # ''"b'' @ backslash # ''",''
                    @ backslash # ''"c'' @ backslash # ''"]"}}]}''\<rparr>
      :: string + http_response)\<close>
  have d: "decoded Keywords (Body ?r) = Inr ?req"
    by (simp add: json_eval)
  have t: "RewriteRequest.Text ?req \<noteq> []"
    by simp
  have c: \<open>fst (callLLM ?do ''sk-test'' (prompt_for Keywords ?req)) = Inr ''["a","b","c"]''\<close>
    by (simp add: callLLM_def json_eval)
  have a: \<open>as_string_array ''["a","b","c"]'' = Some [''a'', ''b'', ''c'']\<close>
    by (simp add: reply_eval json_eval)
  from list_reply_parsed [OF _ d t c a] show ?thesis
    by simp
qed

text \<open>
  C2, as amended: for keywords, questions and titles, when the request decodes with a
  non-empty text and \<open>callLLM\<close> returns a reply that \<^verbatim>\<open>json.Unmarshal\<close> rejects for a
  string slice, that is a reply that is neither the JSON value \<^verbatim>\<open>null\<close> nor a JSON array
  whose elements are strings or \<^verbatim>\<open>null\<close> (any reply that is not valid JSON is one), the
  response has status 200 and its list field is the one-element list of the raw reply.
\<close>

theorem list_reply_fallback:
  assumes "ep \<in> {Keywords, Questions, Titles}"
    and "decoded ep (Body r) = Inr req"
    and "RewriteRequest.Text req \<noteq> []"
    and "fst (callLLM do apiKey (prompt_for ep req)) = Inr out"
    and "\<not> is_null out"
    and "as_lenient_array out = None"
  shows "resp (handlerOf ep apiKey do r) =
           \<lparr>status = 200, content_type = ''application/json'',
            body = Document (JObject
              [(if ep = Keywords then ''keywords'' else if ep = Questions then ''questions''
                else ''titles'',
                JArray [JString out])])\<rparr>"
  using handler_after_reply [OF assms(2-4)] assms(1) Unmarshal_strings_rejects [OF assms(5,6)]
  by (auto simp add: writeJSON_def answer_def StatusOK_def encode_strings_def)

theorem list_reply_fallback_witness:
  \<open>resp (titlesHandler ''sk-test''
      (\<lambda>_. Inr \<lparr>StatusCode = 200,
                  resp_Body = ''{"choices":[{"message":{"content":"one two three"}}]}''\<rparr>)
      \<lparr>Method = ''POST'', Path = ''/titles'', Body = ''{"text":"The sky is blue."}''\<rparr>) =
    \<lparr>status = 200, content_type = ''application/json'',
     body = Document (JObject [(''titles'', JArray [JString ''one two three''])])\<rparr>\<close>
proof -
  let ?r = \<open>\<lparr>Method = ''POST'', Path = ''/titles'', Body = ''{"text":"The sky is blue."}''\<rparr>\<close>
  let ?req = "\<lparr>RewriteRequest.Text = ''The sky is blue.'', Tone = []\<rparr>"
  let ?do = \<open>\<lambda>_::http_request. (Inr \<lparr>StatusCode = 200,
      resp_Body = ''{"choices":[{"message":{"content":"one two three"}}]}''\<rparr>
      :: string + http_response)\<close>
  have d: "decoded Titles (Body ?r) = Inr ?req"
    by (simp add: json_eval)
  have t: "RewriteRequest.Text ?req \<noteq> []"
    by simp
  have c: \<open>fst (callLLM ?do ''sk-test'' (prompt_for Titles ?req)) = Inr ''one two three''\<close>
    by (simp add: callLLM_def json_eval)
  have n: \<open>\<not> is_null ''one two three''\<close>
    by (simp add: reply_eval json_eval)
  have a: \<open>as_lenient_array ''one two three'' = None\<close>
    by (simp add: reply_eval json_eval)
  from list_reply_fallback [OF _ d t c n a] show ?thesis
    by simp
qed

text \<open>
  C2 as it is stated fails at the reply \<^verbatim>\<open>null\<close>: it is not a JSON array of strings,
  yet the list field of the response is not the one-element list of the raw reply.
\<close>

theorem list_reply_fallback_counterexample:
  \<open>as_string_array ''null'' = None
   \<and> decoded Keywords ''{"text":"The sky is blue."}''
       = Inr \<lparr>RewriteRequest.Text = ''The sky is blue.'', Tone = []\<rparr>
   \<and> fst (callLLM
        (\<lambda>_. Inr \<lparr>StatusCode = 200, resp_Body = ''{"choices":[{"message":{"content":"null"}}]}''\<rparr>)
        ''sk-test''
        (prompt_for Keywords \<lparr>RewriteRequest.Text = ''The sky is blue.'', Tone = []\<rparr>))
       = Inr ''null''
   \<and> body (resp (keywordsHandler ''sk-test''
        (\<lambda>_. Inr \<lparr>StatusCode = 200, resp_Body = ''{"choices":[{"message":{"content":"null"}}]}''\<rparr>)
        \<lparr>Method = ''POST'', Path = ''/keywords'', Body = ''{"text":"The sky is blue."}''\<rparr>))
       \<noteq> Document (JObject [(''keywords'', JArray [JString ''null''])])\<close>
proof -
  let ?r = \<open>\<lparr>Method = ''POST'', Path = ''/keywords'', Body = ''{"text":"The sky is blue."}''\<rparr>\<close>
  let ?req = "\<lparr>RewriteRequest.Text = ''The sky is blue.'', Tone = []\<rparr>"
  let ?do = \<open>\<lambda>_::http_request. (Inr \<lparr>StatusCode = 200,
      resp_Body = ''{"choices":[{"message":{"content":"null"}}]}''\<rparr>
      :: string + http_response)\<close>
  have a: "as_string_array ''null'' = None"
    by (simp add: reply_eval json_eval)
  have d: "decoded Keywords (Body ?r) = Inr ?req"
    by (simp add: json_eval)
  have t: "RewriteRequest.Text ?req \<noteq> []"
    by simp
  have c: "fst (callLLM ?do ''sk-test'' (prompt_for Keywords ?req)) = Inr ''null''"
    by (simp add: callLLM_def json_eval)
  have u: "Unmarshal_strings ''null'' = Inr None"
    by (simp add: json_eval)
  from handler_after_reply [of Keywords ?r ?req ?do "''sk-test''", OF d t c] u
  have "body (resp (keywordsHandler ''sk-test'' ?do ?r))
          \<noteq> Document (JObject [(''keywords'', JArray [JString ''null''])])"
    by (simp add: answer_def writeJSON_def encode_strings_def)
  with a d c show ?thesis
    by simp
qed

text \<open>
  C10: the reply \<^verbatim>\<open>null\<close> is a reply for which the list-shaped endpoints return neither
  a parsed array of strings nor the one-element fallback. The reply is not a JSON array
  of strings, unmarshalling it into a string slice succeeds with the nil slice, and for
  keywords, questions and titles a request that decodes with a non-empty text is answered
  with status 200 and the list field \<^verbatim>\<open>null\<close>, which is not the list of the raw reply.
\<close>

theorem null_reply_nil_list:
  assumes "ep \<in> {Keywords, Questions, Titles}"
    and "decoded ep (Body r) = Inr req"
    and "RewriteRequest.Text req \<noteq> []"
    and "fst (callLLM do apiKey (prompt_for ep req)) = Inr ''null''"
  shows "as_string_array ''null'' = None
         \<and> Unmarshal_strings ''null'' = Inr None
         \<and> resp (handlerOf ep apiKey do r) =
             \<lparr>status = 200, content_type = ''application/json'',
              body = Document (JObject
                [(if ep = Keywords then ''keywords'' else if ep = Questions then ''questions''
                  else ''titles'',
                  JNull)])\<rparr>
         \<and> body (resp (handlerOf ep apiKey do r)) \<noteq>
             Document (JObject
                [(if ep = Keywords then ''keywords'' else if ep = Questions then ''questions''
                  else ''titles'',
                  JArray [JString ''null''])])"
proof -
  have a: "as_string_array ''null'' = None"
    by (simp add: reply_eval json_eval)
  have u: "Unmarshal_strings ''null'' = Inr None"
    by (simp add: json_eval)
  from handler_after_reply [OF assms(2-4)] assms(1) u a show ?thesis
    by (auto simp add: writeJSON_def answer_def StatusOK_def encode_strings_def)
qed

theorem null_reply_nil_list_witness:
  \<open>resp (questionsHandler ''sk-test''
      (\<lambda>_. Inr \<lparr>StatusCode = 200, resp_Body = ''{"choices":[{"message":{"content":"null"}}]}''\<rparr>)
      \<lparr>Method = ''POST'', Path = ''/questions'', Body = ''{"text":"The sky is blue."}''\<rparr>) =
    \<lparr>status = 200, content_type = ''application/json'',
     body = Document (JObject [(''questions'', JNull)])\<rparr>\<close>
proof -
  let ?r = \<open>\<lparr>Method = ''POST'', Path = ''/questions'', Body = ''{"text":"The sky is blue."}''\<rparr>\<close>
  let ?req = "\<lparr>RewriteRequest.Text = ''The sky is blue.'', Tone = []\<rparr>"
  let ?do = \<open>\<lambda>_::http_request. (Inr \<lparr>StatusCode = 200,
      resp_Body = ''{"choices":[{"message":{"content":"null"}}]}''\<rparr>
      :: string + http_response)\<close>
  have d: "decoded Questions (Body ?r) = Inr ?req"
    by (simp add: json_eval)
  have t: "RewriteRequest.Text ?req \<noteq> []"
    by simp
  have c: "fst (callLLM ?do ''sk-test'' (prompt_for Questions ?req)) = Inr ''null''"
    by (simp add: callLLM_def json_eval)
  from null_reply_nil_list [OF _ d t c] show ?thesis
    by simp
qed

end
